theory Spec2Isabelle
  imports Main "HOL-Library.Char_ord" "HOL-Library.List_Lexorder" "HOL-Library.Product_Lexorder"
begin

section \<open>Python strings\<close>

text \<open>
  Both tools are Python scripts. A Python \<open>str\<close> is modelled as a \<open>string\<close> of 8-bit
  characters, which is exact for the ASCII text that host names, DNS answers and labels
  consist of. The order on strings (\<open>List_Lexorder\<close> over \<open>Char_ord\<close>) is the lexicographic
  order by character code that Python's \<open>sorted\<close> uses on \<open>str\<close>.
\<close>

definition py_isspace :: "char \<Rightarrow> bool" where
  \<comment> \<open>the ASCII characters for which \<open>str.isspace\<close> holds\<close>
  "py_isspace c = (c \<in> set [CHR 0x09, CHR 0x0A, CHR 0x0B, CHR 0x0C, CHR 0x0D,
                              CHR 0x1C, CHR 0x1D, CHR 0x1E, CHR 0x1F, CHR 0x20])"

definition py_strip :: "string \<Rightarrow> string" where
  \<comment> \<open>\<open>s.strip()\<close>\<close>
  "py_strip s = rev (dropWhile py_isspace (rev (dropWhile py_isspace s)))"

definition lower_char :: "char \<Rightarrow> char" where
  "lower_char c =
     (case map_of (zip ''ABCDEFGHIJKLMNOPQRSTUVWXYZ'' ''abcdefghijklmnopqrstuvwxyz'') c of
        Some d \<Rightarrow> d | None \<Rightarrow> c)"

definition upper_char :: "char \<Rightarrow> char" where
  "upper_char c =
     (case map_of (zip ''abcdefghijklmnopqrstuvwxyz'' ''ABCDEFGHIJKLMNOPQRSTUVWXYZ'') c of
        Some d \<Rightarrow> d | None \<Rightarrow> c)"

definition py_lower :: "string \<Rightarrow> string" where
  \<comment> \<open>\<open>s.lower()\<close>\<close>
  "py_lower s = map lower_char s"

definition py_capitalize :: "string \<Rightarrow> string" where
  \<comment> \<open>\<open>s.capitalize()\<close>\<close>
  "py_capitalize s = (case s of [] \<Rightarrow> [] | c # cs \<Rightarrow> upper_char c # map lower_char cs)"

definition py_rstrip_dot :: "string \<Rightarrow> string" where
  \<comment> \<open>\<open>s.rstrip('.')\<close>\<close>
  "py_rstrip_dot s = rev (dropWhile (\<lambda>c. c = CHR ''.'') (rev s))"

fun py_startswith :: "string \<Rightarrow> string \<Rightarrow> bool" where
  \<comment> \<open>\<open>s.startswith(p)\<close>, written \<open>py_startswith p s\<close>\<close>
  "py_startswith [] s = True"
| "py_startswith (p # ps) [] = False"
| "py_startswith (p # ps) (c # cs) = (p = c \<and> py_startswith ps cs)"

fun py_in :: "string \<Rightarrow> string \<Rightarrow> bool" where
  \<comment> \<open>\<open>sub in s\<close> on strings, written \<open>py_in sub s\<close>\<close>
  "py_in sub [] = (sub = [])"
| "py_in sub (c # cs) = (py_startswith sub (c # cs) \<or> py_in sub cs)"

fun py_join :: "string \<Rightarrow> string list \<Rightarrow> string" where
  \<comment> \<open>\<open>sep.join(xs)\<close> for a list of strings\<close>
  "py_join sep [] = []"
| "py_join sep [x] = x"
| "py_join sep (x # y # ys) = x @ sep @ py_join sep (y # ys)"

fun split_ws :: "string \<Rightarrow> string \<Rightarrow> string list" where
  \<comment> \<open>the scan of \<open>s.split()\<close>; the first argument is the word read so far\<close>
  "split_ws cur [] = (if cur = [] then [] else [cur])"
| "split_ws cur (c # cs) =
     (if py_isspace c then (if cur = [] then split_ws [] cs else cur # split_ws [] cs)
      else split_ws (cur @ [c]) cs)"

definition py_split :: "string \<Rightarrow> string list" where
  \<comment> \<open>\<open>s.split()\<close>: the maximal runs of characters that are not whitespace\<close>
  "py_split s = split_ws [] s"

definition first_segment :: "char \<Rightarrow> string \<Rightarrow> string" where
  \<comment> \<open>\<open>s.split(c)[0]\<close>: the text before the first \<open>c\<close>\<close>
  "first_segment c s = takeWhile (\<lambda>x. x \<noteq> c) s"

definition remove_char :: "char \<Rightarrow> string \<Rightarrow> string" where
  \<comment> \<open>\<open>s.replace(c, '')\<close> for a one-character \<open>c\<close>\<close>
  "remove_char c s = filter (\<lambda>x. x \<noteq> c) s"

definition digit_char :: "nat \<Rightarrow> char" where
  "digit_char n = ''0123456789'' ! (n mod 10)"

function str_nat :: "nat \<Rightarrow> string" where
  \<comment> \<open>\<open>str(n)\<close> of a non-negative \<open>int\<close>\<close>
  "str_nat n = (if n < 10 then [digit_char n] else str_nat (n div 10) @ [digit_char (n mod 10)])"
  by pat_completeness auto
termination
  by (relation "measure id") auto

declare str_nat.simps [simp del]

definition digit_val :: "char \<Rightarrow> nat option" where
  "digit_val c = map_of (zip ''0123456789'' [0, 1, 2, 3, 4, 5, 6, 7, 8, 9]) c"

fun int_digits :: "nat \<Rightarrow> string \<Rightarrow> nat option" where
  "int_digits acc [] = Some acc"
| "int_digits acc (c # cs) =
     (case digit_val c of None \<Rightarrow> None | Some d \<Rightarrow> int_digits (10 * acc + d) cs)"

definition py_int :: "string \<Rightarrow> nat option" where
  \<comment> \<open>\<open>int(s)\<close> on a string of decimal digits; \<open>None\<close> stands for \<open>ValueError\<close>. The only
      strings the tools pass to \<open>int\<close> are the first words of \<open>f"{preference} {exchange}"\<close>.\<close>
  "py_int s = (if s = [] then None else int_digits 0 s)"

definition sorted_set :: "string list \<Rightarrow> string list" where
  \<comment> \<open>\<open>sorted(list(set(xs)))\<close>: the distinct elements in ascending order\<close>
  "sorted_set xs = sort (remdups xs)"

section \<open>Python values, exceptions and the external services\<close>

text \<open>
  A WHOIS field is \<open>None\<close>, a string, a \<open>datetime\<close> (carried as its \<open>str()\<close> text) or a
  list of these.
\<close>

datatype atom = ANone | AStr string | ADate string

datatype pyval = PAtom atom | PList "atom list"

fun atom_truthy :: "atom \<Rightarrow> bool" where
  "atom_truthy ANone = False"
| "atom_truthy (AStr s) = (s \<noteq> [])"
| "atom_truthy (ADate d) = True"

fun truthy :: "pyval \<Rightarrow> bool" where
  "truthy (PAtom a) = atom_truthy a"
| "truthy (PList xs) = (xs \<noteq> [])"

fun atom_str :: "atom \<Rightarrow> string" where
  \<comment> \<open>\<open>str(v)\<close>\<close>
  "atom_str ANone = ''None''"
| "atom_str (AStr s) = s"
| "atom_str (ADate d) = d"

text \<open>
  An exception is the class an \<open>except\<close> clause matches it by, \<open>type(e).__name__\<close> and
  \<open>str(e)\<close>.
\<close>

datatype exn_class =
    PywhoisError | ConnectionResetError | SocketTimeout | AttributeError
  | NXDOMAIN | NoAnswer | Timeout | OtherException

datatype exn = Exn exn_class string string

fun exn_class_of :: "exn \<Rightarrow> exn_class" where
  "exn_class_of (Exn c n m) = c"

fun exn_name :: "exn \<Rightarrow> string" where
  "exn_name (Exn c n m) = n"

fun exn_str :: "exn \<Rightarrow> string" where
  "exn_str (Exn c n m) = m"

text \<open>
  The object \<open>whois.whois\<close> returns: its truth value, its attributes (\<open>None\<close> where the
  lookup raises \<open>AttributeError\<close>, with the message \<open>w_noattr\<close> gives), whether it is a
  \<open>dict\<close>, and its items.
\<close>

record whois_obj =
  w_truthy :: bool
  w_attr :: "string \<Rightarrow> pyval option"
  w_noattr :: "string \<Rightarrow> string"
  w_is_dict :: bool
  w_item :: "string \<Rightarrow> pyval option"

datatype whois_ret = WNone | WObj whois_obj

datatype rdtype = A | AAAA | NS | MX

datatype query = WhoisQ string | DnsQ string rdtype

text \<open>
  The external collaborators, consumed as black boxes: the WHOIS client, the DNS resolver
  (per record type: the \<open>to_text()\<close> of each address, the \<open>target.to_text()\<close> of each NS
  record, the preference and \<open>exchange.to_text()\<close> of each MX record), the public-suffix
  splitter (subdomain, domain, suffix), and Python's \<open>str()\<close> of a list.
\<close>

record env =
  whois_query :: "string \<Rightarrow> exn + whois_ret"
  resolve_addr :: "string \<Rightarrow> rdtype \<Rightarrow> exn + string list"
  resolve_ns :: "string \<Rightarrow> exn + string list"
  resolve_mx :: "string \<Rightarrow> exn + (nat \<times> string) list"
  tldextract :: "string \<Rightarrow> string \<times> string \<times> string"
  list_str :: "atom list \<Rightarrow> string"

fun py_str :: "env \<Rightarrow> pyval \<Rightarrow> string" where
  \<comment> \<open>\<open>str(v)\<close>, as an f-string formats a value\<close>
  "py_str e (PAtom a) = atom_str a"
| "py_str e (PList xs) = list_str e xs"

definition getattr_w :: "whois_obj \<Rightarrow> string \<Rightarrow> exn + pyval" where
  \<comment> \<open>\<open>w.name\<close>\<close>
  "getattr_w w name =
     (case w_attr w name of
        None \<Rightarrow> Inl (Exn AttributeError ''AttributeError'' (w_noattr w name))
      | Some v \<Rightarrow> Inr v)"

definition getattr_default :: "whois_obj \<Rightarrow> string \<Rightarrow> pyval" where
  \<comment> \<open>\<open>getattr(w, name, None)\<close>\<close>
  "getattr_default w name = (case w_attr w name of None \<Rightarrow> PAtom ANone | Some v \<Rightarrow> v)"

definition hasattr_w :: "whois_obj \<Rightarrow> string \<Rightarrow> bool" where
  \<comment> \<open>\<open>hasattr(w, name)\<close>\<close>
  "hasattr_w w name = (w_attr w name \<noteq> None)"

definition get_w :: "whois_obj \<Rightarrow> string \<Rightarrow> exn + pyval" where
  \<comment> \<open>\<open>w.get(name)\<close>\<close>
  "get_w w name =
     (if w_is_dict w then Inr (case w_item w name of None \<Rightarrow> PAtom ANone | Some v \<Rightarrow> v)
      else Inl (Exn AttributeError ''AttributeError'' (w_noattr w ''get'')))"

text \<open>A Python \<open>dict\<close> with string keys and values, in insertion order.\<close>

type_synonym pydict = "(string \<times> string) list"

fun dict_set :: "string \<Rightarrow> string \<Rightarrow> pydict \<Rightarrow> pydict" where
  \<comment> \<open>\<open>d[k] = v\<close>\<close>
  "dict_set k v [] = [(k, v)]"
| "dict_set k v ((k', v') # d) = (if k' = k then (k, v) # d else (k', v') # dict_set k v d)"

definition dict_update :: "pydict \<Rightarrow> pydict \<Rightarrow> pydict" where
  \<comment> \<open>\<open>d.update(other)\<close>, written \<open>dict_update d other\<close>\<close>
  "dict_update d other = fold (\<lambda>(k, v). dict_set k v) other d"

section \<open>The TLD Variant Checker (domain_tld_checker.py)\<close>

definition TLDS_RAW :: "string list" where
  \<comment> \<open>lines 10-18\<close>
  "TLDS_RAW =
    [''.com'', ''.org'', ''.net'', ''.co'', ''.info'', ''.biz'', ''.us'', ''.ca'', ''.uk'',
     ''.io'', ''.ai'', ''.tech'', ''.app'', ''.online'', ''.site'', ''.website'', ''.space'',
     ''.store'', ''.xyz'', ''.club'', ''.vip'', ''.link'', ''.click'', ''.top'', ''.loan'',
     ''.support'', ''.help'', ''.services'', ''.company'', ''.solutions'', ''.agency'',
     ''.email'', ''.cc'', ''.tv'', ''.me'', ''.asia'', ''.mobi'', ''.pro'', ''.name'',
     ''.de'', ''.fr'', ''.au'', ''.nl'', ''.ru'', ''.cn'', ''.br'', ''.in'', ''.jp'',
     ''.live'', ''.shop'', ''.world'', ''.guru'', ''.news'', ''.today'', ''.ltd'', ''.group'']"

definition TLDS_TO_CHECK :: "string list" where
  \<comment> \<open>line 20\<close>
  "TLDS_TO_CHECK =
     sorted_set (map (\<lambda>tld. if py_startswith ''.'' tld then tld else ''.'' @ tld) TLDS_RAW)"

definition extract_meaningful_base :: "env \<Rightarrow> string \<Rightarrow> string" where
  \<comment> \<open>lines 23-34\<close>
  "extract_meaningful_base e fqdn =
     (case tldextract e (py_strip (py_lower fqdn)) of
        (subdomain, domain, suffix) \<Rightarrow>
          if subdomain \<noteq> [] then subdomain @ ''.'' @ domain else domain)"

record vstate =
  info :: pydict
  dns_errors :: "string list"
  whois_errors :: "string list"
  dns_resolved_ip :: bool
  dns_resolved_ns :: bool
  queries :: "query list"

definition init_state :: "string \<Rightarrow> vstate" where
  \<comment> \<open>lines 41-58\<close>
  "init_state domain_variant =
     \<lparr>info =
        [(''Full Domain Queried'', domain_variant),
         (''DNS Resolves (A/AAAA)'', ''No''),
         (''IP Addresses'', ''N/A''),
         (''Name Servers (NS)'', ''N/A''),
         (''Mail Servers (MX)'', ''N/A''),
         (''WHOIS Creation Date'', ''N/A''),
         (''WHOIS Updated Date'', ''N/A''),
         (''WHOIS Expiration Date'', ''N/A''),
         (''WHOIS Registrar'', ''N/A''),
         (''WHOIS Domain Status'', ''N/A''),
         (''WHOIS Registrant Org'', ''N/A''),
         (''WHOIS Notes/Errors'', [])],
      dns_errors = [], whois_errors = [],
      dns_resolved_ip = False, dns_resolved_ns = False, queries = []\<rparr>"

definition resolve_ips :: "env \<Rightarrow> string \<Rightarrow> (exn + string list) \<times> query list" where
  \<comment> \<open>the loop over A and AAAA (lines 67-70, and lines 108-111 of the collector): the
      texts of all answers, or the first exception, with the queries made\<close>
  "resolve_ips e d =
     (case resolve_addr e d A of
        Inl x \<Rightarrow> (Inl x, [DnsQ d A])
      | Inr as \<Rightarrow>
          (case resolve_addr e d AAAA of
             Inl x \<Rightarrow> (Inl x, [DnsQ d A, DnsQ d AAAA])
           | Inr bs \<Rightarrow> (Inr (as @ bs), [DnsQ d A, DnsQ d AAAA])))"

definition check_ip :: "env \<Rightarrow> string \<Rightarrow> vstate \<Rightarrow> vstate" where
  \<comment> \<open>lines 64-82\<close>
  "check_ip e d s =
     (case resolve_ips e d of
        (Inr ip_addresses_list, qs) \<Rightarrow>
          (if ip_addresses_list \<noteq> [] then
             s\<lparr>info := dict_set ''DNS Resolves (A/AAAA)'' ''Yes''
                        (dict_set ''IP Addresses'' (py_join '', '' (sorted_set ip_addresses_list))
                           (info s)),
               dns_resolved_ip := True, queries := queries s @ qs\<rparr>
           else s\<lparr>queries := queries s @ qs\<rparr>)
      | (Inl x, qs) \<Rightarrow>
          s\<lparr>dns_errors := dns_errors s @
                [case exn_class_of x of
                   NXDOMAIN \<Rightarrow> ''DNS NXDOMAIN (IP)''
                 | NoAnswer \<Rightarrow> ''DNS NoAnswer (IP)''
                 | Timeout \<Rightarrow> ''DNS Timeout (IP)''
                 | _ \<Rightarrow> ''DNS IP Error: '' @ exn_name x],
            queries := queries s @ qs\<rparr>)"

definition check_ns :: "env \<Rightarrow> string \<Rightarrow> vstate \<Rightarrow> vstate" where
  \<comment> \<open>lines 84-100\<close>
  "check_ns e d s0 =
     (let s = s0\<lparr>queries := queries s0 @ [DnsQ d NS]\<rparr> in
      case resolve_ns e d of
        Inr targets \<Rightarrow>
          (let name_servers_list = map py_rstrip_dot targets in
           if name_servers_list \<noteq> [] then
             s\<lparr>info := dict_set ''Name Servers (NS)''
                        (py_join '', '' (sorted_set name_servers_list)) (info s),
               dns_resolved_ns := True\<rparr>
           else s)
      | Inl x \<Rightarrow>
          (case exn_class_of x of
             NXDOMAIN \<Rightarrow>
               (if \<not> dns_resolved_ip s then s\<lparr>dns_errors := dns_errors s @ [''DNS NXDOMAIN (NS)'']\<rparr>
                else s)
           | NoAnswer \<Rightarrow> s\<lparr>dns_errors := dns_errors s @ [''DNS NoAnswer (NS)'']\<rparr>
           | Timeout \<Rightarrow> s\<lparr>dns_errors := dns_errors s @ [''DNS Timeout (NS)'']\<rparr>
           | _ \<Rightarrow> s\<lparr>dns_errors := dns_errors s @ [''DNS NS Error: '' @ exn_name x]\<rparr>))"

definition mx_sort_key :: "string \<Rightarrow> string + (nat \<times> string)" where
  \<comment> \<open>the key of line 110, \<open>(int(x.split()[0]), x.split()[1])\<close>; \<open>Inl\<close> is the type name
      of the exception it raises, which is all the handler of line 118 reads\<close>
  "mx_sort_key x =
     (case py_split x of
        [] \<Rightarrow> Inl ''IndexError''
      | p # rest \<Rightarrow>
          (case py_int p of
             None \<Rightarrow> Inl ''ValueError''
           | Some n \<Rightarrow> (case rest of [] \<Rightarrow> Inl ''IndexError'' | ex # _ \<Rightarrow> Inr (n, ex))))"

fun mx_keys :: "string list \<Rightarrow> string + (nat \<times> string) list" where
  "mx_keys [] = Inr []"
| "mx_keys (x # xs) =
     (case mx_sort_key x of
        Inl err \<Rightarrow> Inl err
      | Inr k \<Rightarrow> (case mx_keys xs of Inl err \<Rightarrow> Inl err | Inr ks \<Rightarrow> Inr (k # ks)))"

definition mx_sort :: "string list \<Rightarrow> string + string list" where
  \<comment> \<open>\<open>mail_servers_list.sort(key=...)\<close> (line 110): the keys are computed first, then
      the list is sorted by them, stably\<close>
  "mx_sort xs =
     (case mx_keys xs of
        Inl err \<Rightarrow> Inl err
      | Inr ks \<Rightarrow> Inr (map snd (sort_key fst (zip ks xs))))"

definition check_mx :: "env \<Rightarrow> string \<Rightarrow> vstate \<Rightarrow> vstate" where
  \<comment> \<open>lines 102-119\<close>
  "check_mx e d s0 =
     (let s = s0\<lparr>queries := queries s0 @ [DnsQ d MX]\<rparr> in
      case resolve_mx e d of
        Inr answers \<Rightarrow>
          (let mail_servers_list =
                 map (\<lambda>(preference, exchange). str_nat preference @ '' '' @ py_rstrip_dot exchange)
                   answers in
           if mail_servers_list \<noteq> [] then
             (case mx_sort mail_servers_list of
                Inr sorted_list \<Rightarrow>
                  s\<lparr>info := dict_set ''Mail Servers (MX)'' (py_join '', '' sorted_list) (info s)\<rparr>
              | Inl name \<Rightarrow> s\<lparr>dns_errors := dns_errors s @ [''DNS MX Error: '' @ name]\<rparr>)
           else s)
      | Inl x \<Rightarrow>
          (case exn_class_of x of
             NXDOMAIN \<Rightarrow>
               (if \<not> dns_resolved_ip s \<and> \<not> dns_resolved_ns s
                then s\<lparr>dns_errors := dns_errors s @ [''DNS NXDOMAIN (MX)'']\<rparr>
                else s)
           | NoAnswer \<Rightarrow> s\<lparr>dns_errors := dns_errors s @ [''DNS NoAnswer (MX)'']\<rparr>
           | Timeout \<Rightarrow> s\<lparr>dns_errors := dns_errors s @ [''DNS Timeout (MX)'']\<rparr>
           | _ \<Rightarrow> s\<lparr>dns_errors := dns_errors s @ [''DNS MX Error: '' @ exn_name x]\<rparr>))"

definition whois_wanted :: "vstate \<Rightarrow> bool" where
  \<comment> \<open>the condition of line 123\<close>
  "whois_wanted s =
     (dns_resolved_ip s \<or> dns_resolved_ns s \<or>
      \<not> list_ex (\<lambda>e. py_in ''NXDOMAIN (IP)'' e \<and> py_in ''NXDOMAIN (NS)'' e) (dns_errors s))"

definition lookup_val :: "whois_obj \<Rightarrow> string \<Rightarrow> pyval" where
  \<comment> \<open>lines 129-133\<close>
  "lookup_val data_obj attr_name =
     (case w_attr data_obj attr_name of
        Some v \<Rightarrow> v
      | None \<Rightarrow>
          (if w_is_dict data_obj
           then (case w_item data_obj attr_name of None \<Rightarrow> PAtom ANone | Some v \<Rightarrow> v)
           else PAtom ANone))"

definition get_val :: "whois_obj \<Rightarrow> string \<Rightarrow> bool \<Rightarrow> bool \<Rightarrow> string" where
  \<comment> \<open>lines 128-141\<close>
  "get_val data_obj attr_name is_list is_date =
     (let val = lookup_val data_obj attr_name in
      if truthy val then
        (case val of
           PList vs \<Rightarrow>
             (case vs of
                [] \<Rightarrow> ''N/A''
              | v0 # _ \<Rightarrow>
                  if is_date then atom_str v0
                  else py_join '', ''
                         (sorted_set (map (\<lambda>v. py_strip (atom_str v)) (filter atom_truthy vs))))
         | PAtom a \<Rightarrow> py_strip (atom_str a))
      else ''N/A'')"

definition has_data :: "whois_ret \<Rightarrow> exn + (whois_obj option)" where
  \<comment> \<open>the test of line 126, \<open>w and (w.domain_name or w.get('domain_name') or w.text)\<close>:
      the object when the test holds\<close>
  "has_data r =
     (case r of
        WNone \<Rightarrow> Inr None
      | WObj w \<Rightarrow>
          if \<not> w_truthy w then Inr None
          else
            (case getattr_w w ''domain_name'' of
               Inl x \<Rightarrow> Inl x
             | Inr v1 \<Rightarrow>
                 if truthy v1 then Inr (Some w)
                 else
                   (case get_w w ''domain_name'' of
                      Inl x \<Rightarrow> Inl x
                    | Inr v2 \<Rightarrow>
                        if truthy v2 then Inr (Some w)
                        else
                          (case getattr_w w ''text'' of
                             Inl x \<Rightarrow> Inl x
                           | Inr v3 \<Rightarrow> Inr (if truthy v3 then Some w else None)))))"

definition whois_fields :: "whois_obj \<Rightarrow> vstate \<Rightarrow> vstate" where
  \<comment> \<open>lines 143-157\<close>
  "whois_fields w s =
     (let registrant_org0 = get_val w ''org'' False False;
          registrant_org =
            (if registrant_org0 = ''N/A'' then get_val w ''registrant_organization'' False False
             else registrant_org0);
          i = dict_set ''WHOIS Registrant Org'' registrant_org
             (dict_set ''WHOIS Domain Status'' (get_val w ''status'' True False)
             (dict_set ''WHOIS Registrar'' (get_val w ''registrar'' False False)
             (dict_set ''WHOIS Expiration Date'' (get_val w ''expiration_date'' False True)
             (dict_set ''WHOIS Updated Date'' (get_val w ''updated_date'' False True)
             (dict_set ''WHOIS Creation Date'' (get_val w ''creation_date'' False True)
                (info s))))));
          resolved = (dns_resolved_ip s \<or> dns_resolved_ns s);
          dn = get_val w ''domain_name'' False False
      in
      if (dn = ''N/A'' \<or> dn = []) \<and> \<not> resolved then
        s\<lparr>info := i,
          whois_errors := whois_errors s @ [''WHOIS data sparse or domain may be available.'']\<rparr>
      else if \<not> resolved then
        s\<lparr>info := i,
          whois_errors := whois_errors s @ [''WHOIS found, but no active DNS (A/AAAA or NS).'']\<rparr>
      else s\<lparr>info := i\<rparr>)"

definition whois_failure :: "exn \<Rightarrow> string" where
  \<comment> \<open>the handlers of lines 165-178\<close>
  "whois_failure x =
     (case exn_class_of x of
        PywhoisError \<Rightarrow>
          (let err_str = py_lower (exn_str x) in
           if list_ex (\<lambda>s. py_in s err_str)
                [''no match'', ''not found'', ''no entries'', ''available'', ''invalid query'']
           then ''WHOIS: No match/Not found (likely available or invalid query).''
           else ''WHOIS Error: '' @ take 100 (exn_str x))
      | ConnectionResetError \<Rightarrow> ''WHOIS Error: ConnectionResetError''
      | SocketTimeout \<Rightarrow> ''WHOIS Error: Socket Timeout''
      | AttributeError \<Rightarrow>
          ''WHOIS AttrError: '' @ take 50 (exn_str x) @ '' (data structure unexpected)''
      | _ \<Rightarrow> ''WHOIS General Error: '' @ exn_name x @ '' - '' @ take 50 (exn_str x))"

definition whois_lookup :: "env \<Rightarrow> string \<Rightarrow> vstate \<Rightarrow> vstate" where
  \<comment> \<open>lines 121-180\<close>
  "whois_lookup e d s0 =
     (if whois_wanted s0 then
        (let s = s0\<lparr>queries := queries s0 @ [WhoisQ d]\<rparr> in
         case whois_query e d of
           Inl x \<Rightarrow> s\<lparr>whois_errors := whois_errors s @ [whois_failure x]\<rparr>
         | Inr r \<Rightarrow>
             (case has_data r of
                Inl x \<Rightarrow> s\<lparr>whois_errors := whois_errors s @ [whois_failure x]\<rparr>
              | Inr (Some w) \<Rightarrow> whois_fields w s
              | Inr None \<Rightarrow>
                  (if \<not> (dns_resolved_ip s \<or> dns_resolved_ns s) then
                     s\<lparr>whois_errors := whois_errors s @
                          [''Domain likely not registered (WHOIS empty/no match).'']\<rparr>
                   else
                     s\<lparr>whois_errors := whois_errors s @
                          [''DNS resolves, but WHOIS lookup failed or returned no data.'']\<rparr>)))
      else
        s0\<lparr>whois_errors := whois_errors s0 @
              [''Skipped WHOIS due to DNS indicating non-existence.'']\<rparr>)"

definition notes_field :: "vstate \<Rightarrow> string" where
  \<comment> \<open>lines 183-186\<close>
  "notes_field s =
     (let all_notes =
            (if dns_errors s \<noteq> [] then [''DNS: '' @ py_join ''; '' (sorted_set (dns_errors s))]
             else []) @
            (if whois_errors s \<noteq> []
             then [''WHOIS: '' @ py_join ''; '' (sorted_set (whois_errors s))] else [])
      in if all_notes \<noteq> [] then py_join '' | '' all_notes else ''OK'')"

definition variant_state :: "env \<Rightarrow> string \<Rightarrow> vstate" where
  \<comment> \<open>the state of \<open>get_domain_variant_info\<close> before the notes are written\<close>
  "variant_state e d = whois_lookup e d (check_mx e d (check_ns e d (check_ip e d (init_state d))))"

definition get_domain_variant_info :: "env \<Rightarrow> string \<Rightarrow> pydict \<times> query list" where
  \<comment> \<open>lines 37-188: the \<open>info\<close> dict returned, and the queries made\<close>
  "get_domain_variant_info e d =
     (let s = variant_state e d
      in (dict_set ''WHOIS Notes/Errors'' (notes_field s) (info s), queries s))"

definition output_header :: "string list" where
  \<comment> \<open>lines 195-200\<close>
  "output_header =
     [''Original Input Domain'', ''Base Name Extracted'', ''TLD Variant Checked'',
      ''Full Domain Queried'', ''DNS Resolves (A/AAAA)'', ''IP Addresses'',
      ''Name Servers (NS)'', ''Mail Servers (MX)'', ''WHOIS Creation Date'',
      ''WHOIS Updated Date'', ''WHOIS Expiration Date'', ''WHOIS Registrar'',
      ''WHOIS Domain Status'', ''WHOIS Registrant Org'', ''WHOIS Notes/Errors'']"

definition error_row :: "string \<Rightarrow> pydict" where
  \<comment> \<open>lines 226-229\<close>
  "error_row orig_domain =
     [(''Original Input Domain'', orig_domain), (''Base Name Extracted'', ''Error''),
      (''WHOIS Notes/Errors'', ''Could not extract base name from input.'')]"

definition variant_row :: "env \<Rightarrow> string \<Rightarrow> string \<Rightarrow> string \<Rightarrow> pydict \<times> query list" where
  \<comment> \<open>lines 234-248: the row of one TLD, and the queries made for it\<close>
  "variant_row e orig_domain base_name tld =
     (case get_domain_variant_info e (base_name @ tld) of
        (variant_info, qs) \<Rightarrow>
          (dict_update
             [(''Original Input Domain'', orig_domain), (''Base Name Extracted'', base_name),
              (''TLD Variant Checked'', tld)]
             variant_info, qs))"

fun process_domains :: "env \<Rightarrow> string list \<Rightarrow> pydict list \<times> query list" where
  \<comment> \<open>the loop of lines 222-250: \<open>results_data\<close>, and the queries made\<close>
  "process_domains e [] = ([], [])"
| "process_domains e (orig_domain # rest) =
     (let base_name = extract_meaningful_base e orig_domain;
          here =
            (if base_name = [] then ([error_row orig_domain], [])
             else (let rs = map (variant_row e orig_domain base_name) TLDS_TO_CHECK
                   in (map fst rs, concat (map snd rs))));
          later = process_domains e rest
      in (fst here @ fst later, snd here @ snd later))"

definition dictwriter_row :: "string list \<Rightarrow> pydict \<Rightarrow> string list option" where
  \<comment> \<open>the row \<open>csv.DictWriter\<close> writes for a dict, with its defaults \<open>restval=''\<close> and
      \<open>extrasaction='raise'\<close>; \<open>None\<close> is the \<open>ValueError\<close> for a key outside the header\<close>
  "dictwriter_row fieldnames rowdict =
     (if list_all (\<lambda>k. k \<in> set fieldnames) (map fst rowdict)
      then Some (map (\<lambda>k. case map_of rowdict k of None \<Rightarrow> [] | Some v \<Rightarrow> v) fieldnames)
      else None)"

fun writerows :: "string list \<Rightarrow> pydict list \<Rightarrow> string list list \<times> bool" where
  \<comment> \<open>\<open>writer.writerows\<close>: the rows written, and whether all of them were\<close>
  "writerows fieldnames [] = ([], True)"
| "writerows fieldnames (r # rs) =
     (case dictwriter_row fieldnames r of
        None \<Rightarrow> ([], False)
      | Some l \<Rightarrow> (case writerows fieldnames rs of (ls, ok) \<Rightarrow> (l # ls, ok)))"

datatype csv_file = NoFile | File "string list" "string list list" bool

definition main :: "env \<Rightarrow> string list \<Rightarrow> csv_file \<times> query list" where
  \<comment> \<open>lines 191-261, on the lines of the input file: the output file (its header, its
      data rows, and whether \<open>writerows\<close> ended without an exception) and the queries made\<close>
  "main e lines =
     (let original_domains = map py_strip (filter (\<lambda>line. py_strip line \<noteq> []) lines) in
      if original_domains = [] then (NoFile, [])
      else
        (case process_domains e original_domains of
           (results_data, qs) \<Rightarrow>
             (case writerows output_header results_data of
                (rows, ok) \<Rightarrow> (File output_header rows ok, qs))))"

section \<open>The Domain-Info Collector (domain_info_collector.py)\<close>

definition no_split_msg :: "string \<Rightarrow> string" where
  \<comment> \<open>the text of the \<open>AttributeError\<close> for \<open>v.split\<close> on a value whose type has no
      such method; \<open>CHR 0x27\<close> is the single quote\<close>
  "no_split_msg type_name =
     [CHR 0x27] @ type_name @ [CHR 0x27] @ '' object has no attribute '' @
     [CHR 0x27] @ ''split'' @ [CHR 0x27]"

definition type_error :: "string \<Rightarrow> exn" where
  "type_error msg = Exn OtherException ''TypeError'' msg"

fun atom_type_name :: "atom \<Rightarrow> string" where
  "atom_type_name ANone = ''NoneType''"
| "atom_type_name (AStr s) = ''str''"
| "atom_type_name (ADate d) = ''datetime.datetime''"

fun join_atoms :: "nat \<Rightarrow> atom list \<Rightarrow> exn + string list" where
  \<comment> \<open>the items of a list handed to \<open>str.join\<close>, from index \<open>i\<close> on\<close>
  "join_atoms i [] = Inr []"
| "join_atoms i (AStr s # vs) =
     (case join_atoms (Suc i) vs of Inl x \<Rightarrow> Inl x | Inr ss \<Rightarrow> Inr (s # ss))"
| "join_atoms i (v # vs) =
     Inl (type_error (''sequence item '' @ str_nat i @ '': expected str instance, '' @
                      atom_type_name v @ '' found''))"

definition join_val :: "pyval \<Rightarrow> exn + string" where
  \<comment> \<open>\<open>', '.join(v)\<close>: a list of strings is joined, a string is joined character by
      character, anything else raises \<open>TypeError\<close>\<close>
  "join_val v =
     (case v of
        PList vs \<Rightarrow> (case join_atoms 0 vs of Inl x \<Rightarrow> Inl x | Inr ss \<Rightarrow> Inr (py_join '', '' ss))
      | PAtom (AStr s) \<Rightarrow> Inr (py_join '', '' (map (\<lambda>c. [c]) s))
      | PAtom _ \<Rightarrow> Inl (type_error ''can only join an iterable''))"

definition or_na :: "env \<Rightarrow> pyval \<Rightarrow> string" where
  \<comment> \<open>\<open>f"{v if v else 'N/A'}"\<close>\<close>
  "or_na e v = (if truthy v then py_str e v else ''N/A'')"

definition guarded :: "whois_obj \<Rightarrow> string \<Rightarrow> pyval option" where
  \<comment> \<open>\<open>hasattr(w, name) and w.name\<close>: the value when it is there and truthy\<close>
  "guarded w name =
     (case w_attr w name of None \<Rightarrow> None | Some v \<Rightarrow> if truthy v then Some v else None)"

definition domain_name_line :: "whois_obj \<Rightarrow> exn + string list" where
  \<comment> \<open>line 20\<close>
  "domain_name_line w =
     (case getattr_w w ''domain_name'' of
        Inl x \<Rightarrow> Inl x
      | Inr (PAtom (AStr s)) \<Rightarrow> Inr [''Domain Name: '' @ s]
      | Inr v \<Rightarrow> (case join_val v of Inl x \<Rightarrow> Inl x | Inr s \<Rightarrow> Inr [''Domain Name: '' @ s]))"

definition plain_line :: "env \<Rightarrow> whois_obj \<Rightarrow> string \<Rightarrow> string \<Rightarrow> exn + string list" where
  \<comment> \<open>lines 21, 22 and 47: \<open>f"Label: {w.name if w.name else 'N/A'}"\<close>\<close>
  "plain_line e w label name =
     (case getattr_w w name of Inl x \<Rightarrow> Inl x | Inr v \<Rightarrow> Inr [label @ '': '' @ or_na e v])"

definition registrar_url :: "env \<Rightarrow> whois_obj \<Rightarrow> exn + string" where
  \<comment> \<open>lines 24-31\<close>
  "registrar_url e w =
     (case guarded w ''registrar_url'' of
        Some u \<Rightarrow> Inr (py_str e u)
      | None \<Rightarrow>
          (case getattr_w w ''registrar'' of
             Inl x \<Rightarrow> Inl x
           | Inr r \<Rightarrow>
               if truthy r then
                 (case r of
                    PAtom (AStr s) \<Rightarrow>
                      (let main_registrar_name =
                             remove_char (CHR ''.'') (remove_char (CHR '' '')
                               (py_lower (first_segment (CHR '','') s)))
                       in Inr (if main_registrar_name \<noteq> []
                               then ''https://www.'' @ main_registrar_name @ ''.com''
                               else ''N/A''))
                  | PAtom a \<Rightarrow>
                      Inl (Exn AttributeError ''AttributeError''
                             (no_split_msg (atom_type_name a)))
                  | PList vs \<Rightarrow>
                      Inl (Exn AttributeError ''AttributeError''
                             (no_split_msg ''list'')))
               else Inr ''N/A''))"

definition registrar_url_line :: "env \<Rightarrow> whois_obj \<Rightarrow> exn + string list" where
  \<comment> \<open>line 32\<close>
  "registrar_url_line e w =
     (case registrar_url e w of Inl x \<Rightarrow> Inl x | Inr u \<Rightarrow> Inr [''Registrar URL: '' @ u])"

definition first_if_list :: "pyval \<Rightarrow> atom" where
  \<comment> \<open>lines 36, 40 and 44: \<open>d[0] if d else None\<close> for a list, the value itself otherwise\<close>
  "first_if_list v = (case v of PList [] \<Rightarrow> ANone | PList (v0 # _) \<Rightarrow> v0 | PAtom a \<Rightarrow> a)"

definition date_line :: "whois_obj \<Rightarrow> string \<Rightarrow> string \<Rightarrow> exn + string list" where
  \<comment> \<open>lines 35-37, 39-41 and 43-45\<close>
  "date_line w label name =
     (case getattr_w w name of
        Inl x \<Rightarrow> Inl x
      | Inr v \<Rightarrow>
          (let d = first_if_list v
           in Inr [label @ '': '' @ (if atom_truthy d then atom_str d else ''N/A'')]))"

definition guarded_line :: "env \<Rightarrow> whois_obj \<Rightarrow> string \<Rightarrow> string \<Rightarrow> exn + string list" where
  \<comment> \<open>lines 48, 51 and 52: \<open>f"Label: {w.name if hasattr(w, 'name') and w.name else 'N/A'}"\<close>\<close>
  "guarded_line e w label name =
     Inr [label @ '': '' @ (case guarded w name of Some v \<Rightarrow> py_str e v | None \<Rightarrow> ''N/A'')]"

definition status_line :: "whois_obj \<Rightarrow> exn + string list" where
  \<comment> \<open>lines 54-57\<close>
  "status_line w =
     (case getattr_w w ''status'' of
        Inl x \<Rightarrow> Inl x
      | Inr (PList vs) \<Rightarrow>
          (if vs \<noteq> [] then
             (case join_val (PList vs) of
                Inl x \<Rightarrow> Inl x
              | Inr s \<Rightarrow> Inr [''Domain Status: '' @ s])
           else Inr [''Domain Status: N/A''])
      | Inr (PAtom a) \<Rightarrow>
          Inr [''Domain Status: '' @ (if atom_truthy a then atom_str a else ''N/A'')])"

definition py_or :: "pyval \<Rightarrow> pyval \<Rightarrow> pyval" where
  \<comment> \<open>\<open>a or b\<close>\<close>
  "py_or a b = (if truthy a then a else b)"

definition contact_lines :: "env \<Rightarrow> whois_obj \<Rightarrow> string \<Rightarrow> exn + string list" where
  \<comment> \<open>the body of the loop of lines 63-74, for one prefix\<close>
  "contact_lines e w contact_type_prefix =
     (let name =
            (if contact_type_prefix = ''registrant''
             then py_or (getattr_default w (contact_type_prefix @ ''_name''))
                        (getattr_default w ''name'')
             else getattr_default w (contact_type_prefix @ ''_name''));
          org =
            (if contact_type_prefix = ''registrant''
             then py_or (getattr_default w (contact_type_prefix @ ''_organization''))
                        (getattr_default w ''org'')
             else getattr_default w (contact_type_prefix @ ''_organization''));
          email = getattr_default w (contact_type_prefix @ ''_email'')
      in Inr ((if truthy name
               then [py_capitalize contact_type_prefix @ '' Name: '' @ py_str e name] else []) @
              (if truthy org
               then [py_capitalize contact_type_prefix @ '' Organization: '' @ py_str e org]
               else []) @
              (if truthy email
               then [py_capitalize contact_type_prefix @ '' Email: '' @ py_str e email]
               else [])))"

definition name_server_line :: "whois_obj \<Rightarrow> exn + string list" where
  \<comment> \<open>lines 77-80\<close>
  "name_server_line w =
     (case getattr_w w ''name_servers'' of
        Inl x \<Rightarrow> Inl x
      | Inr v \<Rightarrow>
          if truthy v then
            (case join_val v of Inl x \<Rightarrow> Inl x | Inr s \<Rightarrow> Inr [''Name Server: '' @ s])
          else Inr [''Name Server: N/A''])"

fun run_lines :: "(exn + string list) list \<Rightarrow> string list \<times> exn option" where
  \<comment> \<open>statements that append to \<open>info_parts\<close>, run in order up to the first exception\<close>
  "run_lines [] = ([], None)"
| "run_lines (Inl x # rest) = ([], Some x)"
| "run_lines (Inr ls # rest) = (case run_lines rest of (ms, r) \<Rightarrow> (ls @ ms, r))"

definition whois_record_lines :: "env \<Rightarrow> whois_obj \<Rightarrow> (exn + string list) list" where
  \<comment> \<open>lines 20-80, the branch where \<open>w.domain_name\<close> is truthy\<close>
  "whois_record_lines e w =
     [domain_name_line w,
      plain_line e w ''Registry Domain ID'' ''registry_domain_id'',
      plain_line e w ''Registrar WHOIS Server'' ''whois_server'',
      registrar_url_line e w,
      date_line w ''Updated Date'' ''updated_date'',
      date_line w ''Creation Date'' ''creation_date'',
      date_line w ''Registrar Registration Expiration Date'' ''expiration_date'',
      plain_line e w ''Registrar'' ''registrar'',
      guarded_line e w ''Registrar IANA ID'' ''iana_id'',
      guarded_line e w ''Registrar Abuse Contact Email'' ''abuse_contact_email'',
      guarded_line e w ''Registrar Abuse Contact Phone'' ''abuse_contact_phone'',
      status_line w,
      contact_lines e w ''registrant'',
      contact_lines e w ''admin'',
      contact_lines e w ''tech'',
      name_server_line w]"

definition whois_handler :: "string \<Rightarrow> exn \<Rightarrow> string list \<times> string list" where
  \<comment> \<open>the handlers of lines 90-98: what is appended to \<open>info_parts\<close> and to \<open>errors\<close>\<close>
  "whois_handler domain_name x =
     (case exn_class_of x of
        PywhoisError \<Rightarrow>
          ([''WHOIS Error: '' @ exn_str x],
           [''WHOIS lookup error for '' @ domain_name @ '': '' @ exn_str x])
      | AttributeError \<Rightarrow>
          ([''WHOIS Attribute Error: '' @ exn_str x @
              '' (data might be incomplete or structured differently)''],
           [''WHOIS attribute error for '' @ domain_name @ '': '' @ exn_str x])
      | _ \<Rightarrow>
          ([''WHOIS General Error: '' @ exn_str x],
           [''General WHOIS processing error for '' @ domain_name @ '': '' @ exn_str x]))"

definition whois_block :: "env \<Rightarrow> string \<Rightarrow> string list \<times> string list" where
  \<comment> \<open>lines 15-98: what the WHOIS lookup adds to \<open>info_parts\<close> and to \<open>errors\<close>\<close>
  "whois_block e domain_name =
     (let no_data = ([''WHOIS lookup failed to return any data.''],
                     [''WHOIS lookup failed for '' @ domain_name])
      in
      case whois_query e domain_name of
        Inl x \<Rightarrow> whois_handler domain_name x
      | Inr WNone \<Rightarrow> no_data
      | Inr (WObj w) \<Rightarrow>
          if \<not> w_truthy w then no_data
          else
            (case getattr_w w ''domain_name'' of
               Inl x \<Rightarrow> whois_handler domain_name x
             | Inr dn \<Rightarrow>
                 if truthy dn then
                   (case run_lines (whois_record_lines e w) of
                      (parts, None) \<Rightarrow> (parts, [])
                    | (parts, Some x) \<Rightarrow>
                        (parts @ fst (whois_handler domain_name x),
                         snd (whois_handler domain_name x)))
                 else
                   ([''WHOIS information incomplete or lookup failed.''] @
                    (if guarded w ''text'' \<noteq> None
                     then [''Raw WHOIS response might contain partial data or error message.'']
                     else []),
                    [])))"

definition ip_display :: "string list \<Rightarrow> string" where
  \<comment> \<open>the value formatted at line 112\<close>
  "ip_display ip_addresses =
     (if ip_addresses \<noteq> [] then py_join '', '' ip_addresses else ''No A/AAAA record found'')"

definition ip_block :: "env \<Rightarrow> string \<Rightarrow> (string list \<times> string list) \<times> query list" where
  \<comment> \<open>lines 105-124\<close>
  "ip_block e domain_name =
     (case resolve_ips e domain_name of
        (Inr ip_addresses, qs) \<Rightarrow>
          (([''Server IP (A/AAAA): '' @ ip_display ip_addresses], []), qs)
      | (Inl x, qs) \<Rightarrow>
          ((case exn_class_of x of
              NXDOMAIN \<Rightarrow>
                ([''Server IP (A/AAAA): NXDOMAIN (Domain does not exist)''],
                 [''DNS NXDOMAIN for '' @ domain_name @ '' (A/AAAA)''])
            | NoAnswer \<Rightarrow>
                ([''Server IP (A/AAAA): No A/AAAA record found''],
                 [''DNS NoAnswer for '' @ domain_name @ '' (A/AAAA)''])
            | Timeout \<Rightarrow>
                ([''Server IP (A/AAAA): DNS Timeout''],
                 [''DNS Timeout for '' @ domain_name @ '' (A/AAAA)''])
            | _ \<Rightarrow>
                ([''Server IP (A/AAAA) Error: '' @ exn_str x],
                 [''DNS A/AAAA lookup error for '' @ domain_name @ '': '' @ exn_str x])), qs))"

definition mx_display :: "(nat \<times> string) list \<Rightarrow> string" where
  \<comment> \<open>the value formatted at line 132, from the answers read at lines 129-131\<close>
  "mx_display answers =
     (let mail_servers =
            map (\<lambda>(preference, exchange). str_nat preference @ '' '' @ exchange) answers
      in if mail_servers \<noteq> [] then py_join '', '' mail_servers else ''No MX record found'')"

definition mx_block :: "env \<Rightarrow> string \<Rightarrow> string list \<times> string list" where
  \<comment> \<open>lines 126-144\<close>
  "mx_block e domain_name =
     (case resolve_mx e domain_name of
        Inr answers \<Rightarrow> ([''Mail Server (MX): '' @ mx_display answers], [])
      | Inl x \<Rightarrow>
          (case exn_class_of x of
             NXDOMAIN \<Rightarrow>
               ([''Mail Server (MX): NXDOMAIN (Domain does not exist)''],
                [''DNS NXDOMAIN for '' @ domain_name @ '' (MX)''])
           | NoAnswer \<Rightarrow>
               ([''Mail Server (MX): No MX record found''],
                [''DNS NoAnswer for '' @ domain_name @ '' (MX)''])
           | Timeout \<Rightarrow>
               ([''Mail Server (MX): DNS Timeout''],
                [''DNS Timeout for '' @ domain_name @ '' (MX)''])
           | _ \<Rightarrow>
               ([''Mail Server (MX) Error: '' @ exn_str x],
                [''DNS MX lookup error for '' @ domain_name @ '': '' @ exn_str x])))"

definition newline :: string where
  "newline = [CHR 0x0A]"

definition get_domain_info :: "env \<Rightarrow> string \<Rightarrow> string \<times> query list" where
  \<comment> \<open>lines 7-151: the text returned, and the queries made\<close>
  "get_domain_info e domain_name =
     (let wb = whois_block e domain_name;
          ib = ip_block e domain_name;
          mb = mx_block e domain_name;
          info_parts = fst wb @ fst (fst ib) @ fst mb;
          errors = snd wb @ snd (fst ib) @ snd mb;
          qs = [WhoisQ domain_name] @ snd ib @ [DnsQ domain_name MX]
      in
      if info_parts = [] \<and> errors \<noteq> [] then
        (''Error gathering information:'' @ newline @ py_join newline errors, qs)
      else if errors \<noteq> [] then
        (py_join newline info_parts @ newline @ newline @ ''Encountered issues:'' @ newline @
         py_join newline errors, qs)
      else (py_join newline info_parts, qs))"

definition invalid_format :: "string \<Rightarrow> bool" where
  \<comment> \<open>the test of line 183\<close>
  "invalid_format domain_name =
     (CHR ''.'' \<notin> set domain_name \<or> CHR '' '' \<in> set domain_name \<or> length domain_name > 253)"

fun process_rows :: "env \<Rightarrow> string list list \<Rightarrow> string list list \<times> query list" where
  \<comment> \<open>the loop of lines 170-201 over the rows \<open>csv.reader\<close> yields: the rows written, and
      the queries made\<close>
  "process_rows e [] = ([], [])"
| "process_rows e ([] # rest) = process_rows e rest"
| "process_rows e ((cell # cells) # rest) =
     (let domain_name = py_lower (py_strip cell);
          later = process_rows e rest
      in
      if domain_name = [] then
        ([''EMPTY_ROW'', ''No domain provided in this row.''] # fst later, snd later)
      else if invalid_format domain_name then
        ([domain_name, ''Invalid domain format''] # fst later, snd later)
      else
        (case get_domain_info e domain_name of
           (domain_information, qs) \<Rightarrow>
             ([domain_name, domain_information] # fst later, qs @ snd later)))"


text \<open>
  Every exception that \<open>get_domain_info\<close> and \<open>get_domain_variant_info\<close> can meet is caught
  inside them, so both are total here and the handler of lines 194-197 of the collector
  has no case to take. Reading and writing the files, the prompts, the progress messages
  and the delays between queries are left out. The external services answer a query
  by its name and type alone.
\<close>

section \<open>The input validation the specification describes\<close>

definition valid_domain_query :: "string \<Rightarrow> bool" where
  \<comment> \<open>the specification's DomainQuery: "must contain a \<open>.\<close>, no internal whitespace,
      length \<le> 253"\<close>
  "valid_domain_query d =
     (CHR ''.'' \<in> set d \<and> list_all (\<lambda>c. \<not> py_isspace c) d \<and> length d \<le> 253)"

section \<open>Sample inputs\<close>

definition env_nxdomain :: env where
  \<comment> \<open>a name that does not exist: every DNS lookup raises NXDOMAIN, WHOIS finds no match\<close>
  "env_nxdomain =
     \<lparr>whois_query = (\<lambda>d. Inl (Exn PywhoisError ''PywhoisError'' ''No match for domain'')),
      resolve_addr = (\<lambda>d t. Inl (Exn NXDOMAIN ''NXDOMAIN'' ''The DNS query name does not exist'')),
      resolve_ns = (\<lambda>d. Inl (Exn NXDOMAIN ''NXDOMAIN'' ''The DNS query name does not exist'')),
      resolve_mx = (\<lambda>d. Inl (Exn NXDOMAIN ''NXDOMAIN'' ''The DNS query name does not exist'')),
      tldextract = (\<lambda>d. ([], d, [])),
      list_str = (\<lambda>vs. ''[]'')\<rparr>"

definition sample_split :: "string \<Rightarrow> string \<times> string \<times> string" where
  \<comment> \<open>what a public-suffix splitter returns for three names\<close>
  "sample_split d =
     (if d = ''sub.example.co.uk'' then (''sub'', ''example'', ''co.uk'')
      else if d = ''example.com'' then ([], ''example'', ''com'')
      else if d = ''co.uk'' then ([], [], ''co.uk'')
      else ([], d, []))"

definition sample_fields :: "(string \<times> pyval) list" where
  "sample_fields =
     [(''domain_name'', PList [AStr ''EXAMPLE.COM'', AStr ''example.com'']),
      (''registrar'', PAtom (AStr ''Example Registrar, Inc.'')),
      (''creation_date'', PList [ADate ''1995-08-14 04:00:00'', ADate ''1995-08-14 04:00:01'']),
      (''updated_date'', PAtom (ADate ''2024-08-14 07:01:34'')),
      (''status'', PList [AStr ''clientTransferProhibited'', AStr ''clientDeleteProhibited'',
                          AStr ''clientTransferProhibited'']),
      (''name_servers'', PList [AStr ''B.IANA-SERVERS.NET'', AStr ''A.IANA-SERVERS.NET''])]"

definition sample_record :: whois_obj where
  \<comment> \<open>a record in the style of python-whois: a dict whose unknown attributes read as
      \<open>None\<close>\<close>
  "sample_record =
     \<lparr>w_truthy = True,
      w_attr = (\<lambda>n. Some (case map_of sample_fields n of None \<Rightarrow> PAtom ANone | Some v \<Rightarrow> v)),
      w_noattr = (\<lambda>n. n),
      w_is_dict = True,
      w_item = map_of sample_fields\<rparr>"

definition env_sample :: env where
  \<comment> \<open>a registered name with addresses, name servers and mail servers\<close>
  "env_sample =
     \<lparr>whois_query = (\<lambda>d. Inr (WObj sample_record)),
      resolve_addr =
        (\<lambda>d t. Inr (if t = A then [''93.184.216.34'', ''23.215.0.136'']
                      else [''2606:2800:21f:cb07:6820:80da:af6b:8b2c''])),
      resolve_ns = (\<lambda>d. Inr [''b.iana-servers.net.'', ''a.iana-servers.net.'']),
      resolve_mx = (\<lambda>d. Inr [(20, ''b.mx.example''), (10, ''a.mx.example'')]),
      tldextract = sample_split,
      list_str = (\<lambda>vs. ''[]'')\<rparr>"

section \<open>Notions the properties are stated with\<close>


definition whois_keys :: "string list" where
  \<comment> \<open>the columns that hold WHOIS data\<close>
  "whois_keys =
     [''WHOIS Creation Date'', ''WHOIS Updated Date'', ''WHOIS Expiration Date'',
      ''WHOIS Registrar'', ''WHOIS Domain Status'', ''WHOIS Registrant Org'']"


definition mx_key :: "nat \<times> string \<Rightarrow> nat \<times> string" where
  \<comment> \<open>the order the specification asks of MX answers: preference, then exchange name
      (without the trailing dots of an absolute name)\<close>
  "mx_key a = (fst a, py_rstrip_dot (snd a))"

definition mx_text :: "nat \<times> string \<Rightarrow> string" where
  \<comment> \<open>how the TLD checker displays one MX answer\<close>
  "mx_text a = str_nat (fst a) @ '' '' @ py_rstrip_dot (snd a)"

definition nospace :: "string \<Rightarrow> bool" where
  "nospace s = list_all (\<lambda>c. \<not> py_isspace c) s"

definition mx_ok :: "nat \<times> string \<Rightarrow> bool" where
  \<comment> \<open>an MX answer with an exchange name: not the root (the null MX), no whitespace\<close>
  "mx_ok a =
     (py_rstrip_dot (snd a) \<noteq> [] \<and> list_all (\<lambda>c. \<not> py_isspace c) (py_rstrip_dot (snd a)))"

definition whois_data :: "env \<Rightarrow> string \<Rightarrow> whois_obj option" where
  \<comment> \<open>the record \<open>whois.whois\<close> returns for a name, when it passes the test of line 126 of
      the TLD checker\<close>
  "whois_data e d =
     (case whois_query e d of
        Inl x \<Rightarrow> None
      | Inr r \<Rightarrow> (case has_data r of Inr (Some w) \<Rightarrow> Some w | _ \<Rightarrow> None))"

definition whois_columns :: "(string \<times> string \<times> bool) list" where
  \<comment> \<open>lines 143-147 of the TLD checker: column, WHOIS attribute, \<open>is_date\<close>\<close>
  "whois_columns =
     [(''WHOIS Creation Date'', ''creation_date'', True),
      (''WHOIS Updated Date'', ''updated_date'', True),
      (''WHOIS Expiration Date'', ''expiration_date'', True),
      (''WHOIS Registrar'', ''registrar'', False),
      (''WHOIS Domain Status'', ''status'', False)]"

definition whois_ok :: "env \<Rightarrow> string \<Rightarrow> whois_obj \<Rightarrow> bool" where
  \<comment> \<open>in the collector, the WHOIS lookup of \<open>d\<close> returned the record \<open>w\<close>, which has a
      domain name, and no statement of lines 20-80 raised an exception\<close>
  "whois_ok e d w =
     (whois_query e d = Inr (WObj w) \<and> w_truthy w \<and>
      (case w_attr w ''domain_name'' of None \<Rightarrow> False | Some v \<Rightarrow> truthy v) \<and>
      snd (run_lines (whois_record_lines e w)) = None)"

definition na_fields :: "(string \<times> string) list" where
  \<comment> \<open>the lines of the collector that read an attribute without \<open>hasattr\<close>: label,
      attribute\<close>
  "na_fields =
     [(''Registry Domain ID'', ''registry_domain_id''),
      (''Registrar WHOIS Server'', ''whois_server''),
      (''Updated Date'', ''updated_date''),
      (''Creation Date'', ''creation_date''),
      (''Registrar Registration Expiration Date'', ''expiration_date''),
      (''Registrar'', ''registrar''),
      (''Domain Status'', ''status''),
      (''Name Server'', ''name_servers'')]"

definition date_fields :: "(string \<times> string) list" where
  "date_fields =
     [(''Updated Date'', ''updated_date''),
      (''Creation Date'', ''creation_date''),
      (''Registrar Registration Expiration Date'', ''expiration_date'')]"

definition guarded_fields :: "(string \<times> string) list" where
  \<comment> \<open>the lines of the collector that read an attribute behind \<open>hasattr\<close>\<close>
  "guarded_fields =
     [(''Registrar IANA ID'', ''iana_id''),
      (''Registrar Abuse Contact Email'', ''abuse_contact_email''),
      (''Registrar Abuse Contact Phone'', ''abuse_contact_phone'')]"

definition clean_registrar :: "string \<Rightarrow> string" where
  \<comment> \<open>the registrar name's first comma-delimited segment, lower-cased, with spaces and
      periods removed\<close>
  "clean_registrar s =
     remove_char (CHR ''.'') (remove_char (CHR '' '') (py_lower (first_segment (CHR '','') s)))"

definition record_with :: "(string \<times> pyval) list \<Rightarrow> whois_obj" where
  \<comment> \<open>a record in the style of python-whois with the given fields\<close>
  "record_with fs =
     \<lparr>w_truthy = True,
      w_attr = (\<lambda>n. Some (case map_of fs n of None \<Rightarrow> PAtom ANone | Some v \<Rightarrow> v)),
      w_noattr = (\<lambda>n. n),
      w_is_dict = True,
      w_item = map_of fs\<rparr>"

definition comma_record :: whois_obj where
  \<comment> \<open>a record whose registrar text starts with a comma\<close>
  "comma_record =
     record_with [(''domain_name'', PAtom (AStr ''example.org'')),
                  (''registrar'', PAtom (AStr '', Inc.''))]"

definition bare_record :: whois_obj where
  \<comment> \<open>a record with a domain name and nothing else\<close>
  "bare_record = record_with [(''domain_name'', PAtom (AStr ''example.org''))]"

section \<open>Properties\<close>

lemma process_rows_append:
  "process_rows e (xs @ ys) =
     (fst (process_rows e xs) @ fst (process_rows e ys),
      snd (process_rows e xs) @ snd (process_rows e ys))"
  by (induction e xs rule: process_rows.induct) (simp_all add: Let_def split: prod.splits)

lemma process_domains_append:
  "process_domains e (xs @ ys) =
     (fst (process_domains e xs) @ fst (process_domains e ys),
      snd (process_domains e xs) @ snd (process_domains e ys))"
  by (induction xs) (simp_all add: Let_def)

lemmas variant_defs =
  get_domain_variant_info_def variant_state_def whois_lookup_def check_mx_def check_ns_def
  check_ip_def init_state_def resolve_ips_def whois_wanted_def has_data_def notes_field_def
  sorted_set_def whois_failure_def py_lower_def lower_char_def Let_def

text \<open>
  C1 (the WHOIS skip policy). The claim: WHOIS is skipped exactly when both the A/AAAA and
  the NS lookup answered NXDOMAIN, and the notes then say so. The test of line 123 asks for
  one entry of \<open>dns_errors\<close> that contains both \<open>NXDOMAIN (IP)\<close> and \<open>NXDOMAIN (NS)\<close>; the two
  labels are separate entries, so the test never holds. For a name on which every DNS
  lookup answers NXDOMAIN the WHOIS query is still made (it is the last query of the
  run), and the notes carry the WHOIS result instead of the skip note.
\<close>

theorem whois_queried_after_double_nxdomain:
  "get_domain_variant_info env_nxdomain ''brand.xyz'' =
     ([(''Full Domain Queried'', ''brand.xyz''),
       (''DNS Resolves (A/AAAA)'', ''No''), (''IP Addresses'', ''N/A''),
       (''Name Servers (NS)'', ''N/A''), (''Mail Servers (MX)'', ''N/A''),
       (''WHOIS Creation Date'', ''N/A''), (''WHOIS Updated Date'', ''N/A''),
       (''WHOIS Expiration Date'', ''N/A''), (''WHOIS Registrar'', ''N/A''),
       (''WHOIS Domain Status'', ''N/A''), (''WHOIS Registrant Org'', ''N/A''),
       (''WHOIS Notes/Errors'',
        ''DNS: DNS NXDOMAIN (IP); DNS NXDOMAIN (MX); DNS NXDOMAIN (NS) | WHOIS: WHOIS: No match/Not found (likely available or invalid query).'')],
      [DnsQ ''brand.xyz'' A, DnsQ ''brand.xyz'' NS, DnsQ ''brand.xyz'' MX, WhoisQ ''brand.xyz''])"
  by (simp add: variant_defs env_nxdomain_def)

text \<open>
  C7 (base-name extraction). With the public-suffix splitter returning the subdomain
  labels \<open>sd\<close>, the registrable label \<open>dm\<close> and the suffix \<open>sf\<close> of the lower-cased, trimmed
  input, \<open>extract_meaningful_base\<close> returns \<open>dm\<close> when there is no subdomain and
  \<open>sd.dm\<close> otherwise; it returns the empty string exactly when the splitter found no
  label before the suffix. In that case the loop of \<open>main\<close> records one error row for
  the input, wherever it stands in the batch, makes no query for it and goes on with
  the rest; the row is written with the input, \<open>Error\<close> and the message, the other
  columns empty.
\<close>

theorem extract_meaningful_base_correct:
  "tldextract e (py_strip (py_lower fqdn)) = (sd, dm, sf) \<Longrightarrow>
   extract_meaningful_base e fqdn = (if sd = [] then dm else sd @ ''.'' @ dm) \<and>
   (extract_meaningful_base e fqdn = [] \<longleftrightarrow> sd = [] \<and> dm = []) \<and>
   (sd = [] \<and> dm = [] \<longrightarrow>
      process_domains e (before @ fqdn # rest) =
        (fst (process_domains e before) @ error_row fqdn # fst (process_domains e rest),
         snd (process_domains e before) @ snd (process_domains e rest)) \<and>
      dictwriter_row output_header (error_row fqdn) =
        Some [fqdn, ''Error'', [], [], [], [], [], [], [], [], [], [], [], [],
              ''Could not extract base name from input.''])"
  by (simp add: extract_meaningful_base_def process_domains_append Let_def
        dictwriter_row_def output_header_def error_row_def)

theorem extract_meaningful_base_witness:
  "extract_meaningful_base env_sample ''sub.example.co.uk'' = ''sub.example'' \<and>
   extract_meaningful_base env_sample ''example.com'' = ''example'' \<and>
   extract_meaningful_base env_sample (''  CO.uk'' @ [CHR 0x0A]) = [] \<and>
   process_domains env_sample ([] @ ''co.uk'' # []) = ([error_row ''co.uk''], [])"
proof -
  have split1: "tldextract env_sample (py_strip (py_lower ''sub.example.co.uk'')) =
      (''sub'', ''example'', ''co.uk'')"
    by (simp add: env_sample_def sample_split_def py_strip_def py_isspace_def py_lower_def
          lower_char_def)
  have split2: "tldextract env_sample (py_strip (py_lower ''example.com'')) =
      ([], ''example'', ''com'')"
    by (simp add: env_sample_def sample_split_def py_strip_def py_isspace_def py_lower_def
          lower_char_def)
  have split3: "tldextract env_sample (py_strip (py_lower (''  CO.uk'' @ [CHR 0x0A]))) =
      ([], [], ''co.uk'')"
    by (simp add: env_sample_def sample_split_def py_strip_def py_isspace_def py_lower_def
          lower_char_def)
  have split4: "tldextract env_sample (py_strip (py_lower ''co.uk'')) = ([], [], ''co.uk'')"
    by (simp add: env_sample_def sample_split_def py_strip_def py_isspace_def py_lower_def
          lower_char_def)
  show ?thesis
    using extract_meaningful_base_correct [OF split1, of "[]" "[]"]
      extract_meaningful_base_correct [OF split2, of "[]" "[]"]
      extract_meaningful_base_correct [OF split3, of "[]" "[]"]
      extract_meaningful_base_correct [OF split4, of "[]" "[]"]
    by simp
qed

text \<open>
  C10 (empty input rows of the collector). A fully empty CSV row, wherever it stands in
  the input, adds no output row and no query: the output and the queries are those of
  the rows before it followed by those of the rows after it. A row whose first cell is
  empty after trimming adds exactly the row \<open>EMPTY_ROW\<close> with its message, and no query.
\<close>

theorem empty_rows_skipped:
  "process_rows e (before @ [] # rest) =
     (fst (process_rows e before) @ fst (process_rows e rest),
      snd (process_rows e before) @ snd (process_rows e rest)) \<and>
   (py_strip cell = [] \<longrightarrow>
    process_rows e (before @ (cell # cells) # rest) =
     (fst (process_rows e before) @ [''EMPTY_ROW'', ''No domain provided in this row.''] #
        fst (process_rows e rest),
      snd (process_rows e before) @ snd (process_rows e rest)))"
  by (simp add: process_rows_append py_lower_def Let_def)

theorem empty_rows_skipped_witness:
  "process_rows env_nxdomain ([] @ [] # []) = ([], []) \<and>
   process_rows env_nxdomain ([] @ (''   '' # [''note'']) # []) =
     ([[''EMPTY_ROW'', ''No domain provided in this row.'']], [])"
proof -
  have blank: "py_strip ''   '' = []"
    by (simp add: py_strip_def py_isspace_def)
  show ?thesis
    using empty_rows_skipped [of env_nxdomain "[]" "[]" "''   ''" "[''note'']"] blank
    by simp
qed

lemmas collector_defs =
  get_domain_info_def whois_block_def whois_handler_def ip_block_def mx_block_def
  resolve_ips_def newline_def Let_def

lemmas string_defs = py_strip_def py_isspace_def py_lower_def lower_char_def

subsection \<open>The info dict keeps its keys\<close>

lemma map_of_dict_set:
  "map_of (dict_set k v d) k' = (if k' = k then Some v else map_of d k')"
  by (induction d) auto










subsection \<open>What each step leaves alone\<close>

lemma frame_check_ip:
  "k \<noteq> ''DNS Resolves (A/AAAA)'' \<Longrightarrow> k \<noteq> ''IP Addresses'' \<Longrightarrow>
   map_of (info (check_ip e d s)) k = map_of (info s) k"
  by (simp add: check_ip_def map_of_dict_set split: prod.splits sum.splits)

lemma frame_check_ns:
  "k \<noteq> ''Name Servers (NS)'' \<Longrightarrow> map_of (info (check_ns e d s)) k = map_of (info s) k"
  by (simp add: check_ns_def Let_def map_of_dict_set split: sum.splits exn_class.splits)

lemma frame_check_mx:
  "k \<noteq> ''Mail Servers (MX)'' \<Longrightarrow> map_of (info (check_mx e d s)) k = map_of (info s) k"
  by (simp add: check_mx_def Let_def map_of_dict_set split: sum.splits exn_class.splits)

lemma frame_whois_fields:
  "k \<notin> set whois_keys \<Longrightarrow> map_of (info (whois_fields w s)) k = map_of (info s) k"
  by (simp add: whois_fields_def Let_def map_of_dict_set whois_keys_def)

lemma frame_whois_lookup:
  "k \<notin> set whois_keys \<Longrightarrow> map_of (info (whois_lookup e d s)) k = map_of (info s) k"
  by (simp add: whois_lookup_def Let_def frame_whois_fields split: sum.splits option.splits)

lemma variant_info_field:
  "k \<noteq> ''WHOIS Notes/Errors'' \<Longrightarrow>
   map_of (fst (get_domain_variant_info e d)) k = map_of (info (variant_state e d)) k"
  by (simp add: get_domain_variant_info_def Let_def map_of_dict_set)

lemma sorted_set_props:
  "sorted (sorted_set xs) \<and> distinct (sorted_set xs) \<and> set (sorted_set xs) = set xs"
  by (simp add: sorted_set_def)

subsection \<open>Rows and the CSV writer\<close>









lemma error_row_written:
  "dictwriter_row output_header (error_row d) =
     Some [d, ''Error'', [], [], [], [], [], [], [], [], [], [], [], [],
           ''Could not extract base name from input.'']"
  by (simp add: dictwriter_row_def output_header_def error_row_def)






lemma length_tlds: "length TLDS_TO_CHECK = 56"
  by (simp add: TLDS_TO_CHECK_def TLDS_RAW_def sorted_set_def)




text \<open>
  C8 (invalid domains in the collector). As stated the claim fails: the test of line 183
  looks for the space character only, so a name with another whitespace character inside
  passes it. \<open>my<TAB>Brand.com\<close> is no valid query (it contains whitespace), yet it is
  looked up (WHOIS, A, MX) and its row is not flagged.
\<close>

theorem tab_passes_validation:
  "\<not> valid_domain_query (''my'' @ [CHR 0x09] @ ''brand.com'') \<and>
   process_rows env_nxdomain [[''my'' @ [CHR 0x09] @ ''Brand.com'']] =
     ([[''my'' @ [CHR 0x09] @ ''brand.com'',
        ''WHOIS Error: No match for domain'' @ [CHR 0x0A] @
        ''Server IP (A/AAAA): NXDOMAIN (Domain does not exist)'' @ [CHR 0x0A] @
        ''Mail Server (MX): NXDOMAIN (Domain does not exist)'' @ [CHR 0x0A, CHR 0x0A] @
        ''Encountered issues:'' @ [CHR 0x0A] @
        ''WHOIS lookup error for my'' @ [CHR 0x09] @ ''brand.com: No match for domain'' @
        [CHR 0x0A] @
        ''DNS NXDOMAIN for my'' @ [CHR 0x09] @ ''brand.com (A/AAAA)'' @ [CHR 0x0A] @
        ''DNS NXDOMAIN for my'' @ [CHR 0x09] @ ''brand.com (MX)'']],
      [WhoisQ (''my'' @ [CHR 0x09] @ ''brand.com''), DnsQ (''my'' @ [CHR 0x09] @ ''brand.com'') A,
       DnsQ (''my'' @ [CHR 0x09] @ ''brand.com'') MX])"
  by (simp add: valid_domain_query_def string_defs invalid_format_def collector_defs
        env_nxdomain_def)

text \<open>
  C8, amended. For every input row whose first cell, trimmed and lower-cased, is not
  empty and lacks a \<open>.\<close>, contains a space character, or is longer than 253 characters,
  the collector writes exactly the row of that name with \<open>Invalid domain format\<close>, and
  makes no query for it: the output and the queries are those of the rows before,
  that row, and those of the rows after.
\<close>

theorem invalid_format_row:
  "d = py_lower (py_strip cell) \<Longrightarrow> d \<noteq> [] \<Longrightarrow>
   CHR ''.'' \<notin> set d \<or> CHR '' '' \<in> set d \<or> 253 < length d \<Longrightarrow>
   process_rows e (before @ (cell # cells) # rest) =
     (fst (process_rows e before) @ [d, ''Invalid domain format''] # fst (process_rows e rest),
      snd (process_rows e before) @ snd (process_rows e rest))"
  by (simp add: process_rows_append invalid_format_def Let_def)

theorem invalid_format_row_witness:
  "process_rows env_sample ([] @ ['' LocalHost ''] # []) =
     ([[''localhost'', ''Invalid domain format'']], []) \<and>
   process_rows env_sample ([] @ [''my brand.com''] # []) =
     ([[''my brand.com'', ''Invalid domain format'']], [])"
proof -
  have a: "''localhost'' = py_lower (py_strip '' LocalHost '')"
    by (simp add: string_defs)
  have b: "''my brand.com'' = py_lower (py_strip ''my brand.com'')"
    by (simp add: string_defs)
  show ?thesis
    using invalid_format_row [where e = env_sample and before = "[]" and cells = "[]"
        and rest = "[]", OF a]
      invalid_format_row [where e = env_sample and before = "[]" and cells = "[]"
        and rest = "[]", OF b]
    by simp
qed

subsection \<open>Numbers as text, and the words of a line\<close>

lemma digit_char_nospace: "\<not> py_isspace (digit_char n)"
proof -
  have "digit_char n \<in> set ''0123456789''"
    unfolding digit_char_def by (rule nth_mem) simp
  then show ?thesis
    by (auto simp: py_isspace_def)
qed

lemma digits_upt: "[0, 1, 2, 3, 4, 5, 6, 7, 8, 9] = [0..<10]"
  by (simp add: upt_rec)

lemma digit_val_digit_char: "digit_val (digit_char n) = Some (n mod 10)"
proof -
  have "map_of (zip ''0123456789'' [0..<10]) (''0123456789'' ! (n mod 10)) =
      Some ([0..<10] ! (n mod 10))"
    by (rule map_of_zip_nth) simp_all
  moreover have "[0..<10] ! (n mod 10) = n mod 10"
    by simp
  ultimately show ?thesis
    unfolding digit_val_def digit_char_def digits_upt by (simp only:)
qed

lemma str_nat_nospace: "nospace (str_nat n)"
  by (induction n rule: str_nat.induct)
    (subst str_nat.simps, simp add: nospace_def digit_char_nospace)

lemma str_nat_nonempty: "str_nat n \<noteq> []"
  by (subst str_nat.simps) simp

lemma int_digits_append:
  "int_digits acc (xs @ ys) =
     (case int_digits acc xs of None \<Rightarrow> None | Some a \<Rightarrow> int_digits a ys)"
  by (induction xs arbitrary: acc) (auto split: option.splits)

lemma int_digits_str_nat: "int_digits 0 (str_nat n) = Some n"
proof (induction n rule: str_nat.induct)
  case (1 n)
  show ?case
  proof (cases "n < 10")
    case True
    then show ?thesis
      by (subst str_nat.simps) (simp add: digit_val_digit_char)
  next
    case False
    then have "int_digits 0 (str_nat (n div 10)) = Some (n div 10)"
      using "1.IH" by simp
    then show ?thesis
      using False by (subst str_nat.simps) (simp add: int_digits_append digit_val_digit_char)
  qed
qed

lemma py_int_str_nat: "py_int (str_nat n) = Some n"
  by (simp add: py_int_def str_nat_nonempty int_digits_str_nat)

lemma split_ws_word:
  "nospace w \<Longrightarrow> split_ws cur (w @ s) = split_ws (cur @ w) s"
  by (induction w arbitrary: cur) (simp_all add: nospace_def)

lemma py_split_two:
  assumes "nospace p" "p \<noteq> []" "nospace x" "x \<noteq> []"
  shows "py_split (p @ '' '' @ x) = [p, x]"
proof -
  have sp: "py_isspace (CHR '' '')" by (simp add: py_isspace_def)
  have "split_ws [] (p @ '' '' @ x) = split_ws p ('' '' @ x)"
    using split_ws_word [OF assms(1), of "[]" "'' '' @ x"] by simp
  also have "\<dots> = p # split_ws [] x"
    using sp assms(2) by simp
  also have "split_ws [] x = split_ws x []"
    using split_ws_word [OF assms(3), of "[]" "[]"] by simp
  also have "\<dots> = [x]" using assms(4) by simp
  finally show ?thesis by (simp add: py_split_def)
qed

subsection \<open>Sorting the mail servers\<close>

lemma mx_sort_key_text: "mx_ok a \<Longrightarrow> mx_sort_key (mx_text a) = Inr (mx_key a)"
  using py_split_two [of "str_nat (fst a)" "py_rstrip_dot (snd a)"]
  by (simp add: mx_ok_def mx_sort_key_def mx_text_def mx_key_def str_nat_nospace
        str_nat_nonempty nospace_def [symmetric] py_int_str_nat)

lemma mx_keys_text: "list_all mx_ok as \<Longrightarrow> mx_keys (map mx_text as) = Inr (map mx_key as)"
  by (induction as) (simp_all add: mx_sort_key_text)

lemma insort_key_pair:
  "insort_key fst (f x, g x) (map (\<lambda>y. (f y, g y)) ys) =
     map (\<lambda>y. (f y, g y)) (insort_key f x ys)"
  by (induction ys) simp_all

lemma sort_key_pair:
  "sort_key fst (map (\<lambda>y. (f y, g y)) xs) = map (\<lambda>y. (f y, g y)) (sort_key f xs)"
  by (induction xs) (simp_all add: insort_key_pair)

lemma mx_sort_text:
  "list_all mx_ok as \<Longrightarrow> mx_sort (map mx_text as) = Inr (map mx_text (sort_key mx_key as))"
proof -
  assume ok: "list_all mx_ok as"
  have "zip (map mx_key as) (map mx_text as) = map (\<lambda>a. (mx_key a, mx_text a)) as"
    by (induction as) simp_all
  then show ?thesis
    by (simp add: mx_sort_def mx_keys_text [OF ok] sort_key_pair comp_def)
qed

text \<open>
  C4 (the order of the mail servers). As stated the claim fails for the collector, which
  joins the MX answers in the order the resolver gave them (lines 129-132 have no sort):
  for the answers (20, b.mx.example), (10, a.mx.example) its line reads
  \<open>20 b.mx.example, 10 a.mx.example\<close>.
\<close>

theorem collector_mx_in_answer_order:
  "resolve_mx env_sample ''example.com'' = Inr [(20, ''b.mx.example''), (10, ''a.mx.example'')] \<and>
   mx_block env_sample ''example.com'' =
     ([''Mail Server (MX): 20 b.mx.example, 10 a.mx.example''], [])"
  by (simp add: mx_block_def env_sample_def mx_display_def str_nat.simps digit_char_def)

text \<open>
  C4, amended. In the TLD checker, for every non-empty MX answer set in which every
  answer names an exchange (not the root, no whitespace), the field
  \<open>Mail Servers (MX)\<close> lists the answers sorted by preference and then by exchange name,
  each as "preference name", joined by ", "; the sorted list is a rearrangement of the
  answers. For (20, b.mx.example), (10, a.mx.example) it reads
  \<open>10 a.mx.example, 20 b.mx.example\<close> (the witness). In the collector the line lists the
  answers in the order received.
\<close>

theorem mx_field_sorted:
  "resolve_mx e d = Inr answers \<Longrightarrow> answers \<noteq> [] \<Longrightarrow> list_all mx_ok answers \<Longrightarrow>
   map_of (fst (get_domain_variant_info e d)) ''Mail Servers (MX)'' =
     Some (py_join '', '' (map mx_text (sort_key mx_key answers))) \<and>
   sorted (map mx_key (sort_key mx_key answers)) \<and>
   set (sort_key mx_key answers) = set answers \<and>
   length (sort_key mx_key answers) = length answers \<and>
   fst (mx_block e d) =
     [''Mail Server (MX): '' @
      py_join '', '' (map (\<lambda>a. str_nat (fst a) @ '' '' @ snd a) answers)]"
proof -
  assume r: "resolve_mx e d = Inr answers" and ne: "answers \<noteq> []"
    and ok: "list_all mx_ok answers"
  have texts: "map (\<lambda>(preference, exchange). str_nat preference @ '' '' @ py_rstrip_dot exchange)
      answers = map mx_text answers"
    by (simp add: mx_text_def case_prod_unfold)
  have "map_of (info (check_mx e d s)) ''Mail Servers (MX)'' =
      Some (py_join '', '' (map mx_text (sort_key mx_key answers)))" for s
    unfolding check_mx_def Let_def r sum.case texts mx_sort_text [OF ok]
    using ne by (simp add: map_of_dict_set)
  then have "map_of (fst (get_domain_variant_info e d)) ''Mail Servers (MX)'' =
      Some (py_join '', '' (map mx_text (sort_key mx_key answers)))"
    by (simp add: variant_info_field variant_state_def frame_whois_lookup whois_keys_def)
  moreover have "fst (mx_block e d) =
     [''Mail Server (MX): '' @
      py_join '', '' (map (\<lambda>a. str_nat (fst a) @ '' '' @ snd a) answers)]"
    using ne by (simp add: mx_block_def r mx_display_def Let_def case_prod_unfold)
  ultimately show ?thesis
    by simp
qed

theorem mx_field_sorted_witness:
  "map_of (fst (get_domain_variant_info env_sample ''example.com'')) ''Mail Servers (MX)'' =
     Some ''10 a.mx.example, 20 b.mx.example''"
proof -
  have r: "resolve_mx env_sample ''example.com'' =
      Inr [(20, ''b.mx.example''), (10, ''a.mx.example'')]"
    by (simp add: env_sample_def)
  have ok: "list_all mx_ok [(20, ''b.mx.example''), (10, ''a.mx.example'')]"
    by (simp add: mx_ok_def py_rstrip_dot_def py_isspace_def)
  have ne: "[(20::nat, ''b.mx.example''), (10, ''a.mx.example'')] \<noteq> []"
    by simp
  show ?thesis
    using mx_field_sorted [OF r ne ok]
    by (simp add: mx_text_def mx_key_def py_rstrip_dot_def str_nat.simps digit_char_def)
qed

text \<open>
  C6 (the IP addresses field). As stated the claim fails for the collector, which joins
  the A and AAAA answers in the order received, without sorting or removing duplicates
  (line 112): for the sample answers its line is not the sorted one.
\<close>

theorem collector_ip_in_answer_order:
  "ip_block env_sample ''example.com'' =
     (([''Server IP (A/AAAA): 93.184.216.34, 23.215.0.136, 2606:2800:21f:cb07:6820:80da:af6b:8b2c''],
       []),
      [DnsQ ''example.com'' A, DnsQ ''example.com'' AAAA]) \<and>
   py_join '', ''
     (sorted_set [''93.184.216.34'', ''23.215.0.136'', ''2606:2800:21f:cb07:6820:80da:af6b:8b2c'']) =
     ''23.215.0.136, 2606:2800:21f:cb07:6820:80da:af6b:8b2c, 93.184.216.34''"
  by (simp add: ip_block_def resolve_ips_def env_sample_def ip_display_def sorted_set_def)

text \<open>
  C6, amended. In the TLD checker, when the A and the AAAA lookup both return and give
  at least one address, the field \<open>IP Addresses\<close> is the ", "-join of the combined
  answers sorted and without duplicates. In the collector the line is the ", "-join of
  the A answers followed by the AAAA answers, as received.
\<close>

theorem ip_field_sorted_unique:
  "resolve_addr e d A = Inr as \<Longrightarrow> resolve_addr e d AAAA = Inr bs \<Longrightarrow> as @ bs \<noteq> [] \<Longrightarrow>
   map_of (fst (get_domain_variant_info e d)) ''IP Addresses'' =
     Some (py_join '', '' (sorted_set (as @ bs))) \<and>
   sorted (sorted_set (as @ bs)) \<and> distinct (sorted_set (as @ bs)) \<and>
   set (sorted_set (as @ bs)) = set (as @ bs) \<and>
   fst (fst (ip_block e d)) = [''Server IP (A/AAAA): '' @ py_join '', '' (as @ bs)]"
proof -
  assume a: "resolve_addr e d A = Inr as" and b: "resolve_addr e d AAAA = Inr bs"
    and ne: "as @ bs \<noteq> []"
  have ips: "resolve_ips e d = (Inr (as @ bs), [DnsQ d A, DnsQ d AAAA])"
    by (simp add: resolve_ips_def a b)
  have "map_of (info (check_ip e d (init_state d))) ''IP Addresses'' =
      Some (py_join '', '' (sorted_set (as @ bs)))"
    using ne by (simp add: check_ip_def ips map_of_dict_set)
  then have "map_of (fst (get_domain_variant_info e d)) ''IP Addresses'' =
      Some (py_join '', '' (sorted_set (as @ bs)))"
    by (simp add: variant_info_field variant_state_def frame_whois_lookup whois_keys_def
          frame_check_mx frame_check_ns)
  moreover have "fst (fst (ip_block e d)) =
      [''Server IP (A/AAAA): '' @ py_join '', '' (as @ bs)]"
    using ne by (simp add: ip_block_def ips ip_display_def)
  ultimately show ?thesis
    using sorted_set_props [of "as @ bs"] by simp
qed

theorem ip_field_sorted_unique_witness:
  "map_of (fst (get_domain_variant_info env_sample ''example.com'')) ''IP Addresses'' =
     Some ''23.215.0.136, 2606:2800:21f:cb07:6820:80da:af6b:8b2c, 93.184.216.34''"
proof -
  have a: "resolve_addr env_sample ''example.com'' A = Inr [''93.184.216.34'', ''23.215.0.136'']"
    by (simp add: env_sample_def)
  have b: "resolve_addr env_sample ''example.com'' AAAA =
      Inr [''2606:2800:21f:cb07:6820:80da:af6b:8b2c'']"
    by (simp add: env_sample_def)
  have ne: "[''93.184.216.34'', ''23.215.0.136''] @
      [''2606:2800:21f:cb07:6820:80da:af6b:8b2c''] \<noteq> []"
    by simp
  show ?thesis
    using ip_field_sorted_unique [OF a b ne] by (simp add: sorted_set_def)
qed

subsection \<open>The WHOIS columns of the TLD checker\<close>

lemma get_val_na: "\<not> truthy (lookup_val w a) \<Longrightarrow> get_val w a il dt = ''N/A''"
  by (simp add: get_val_def)

lemma get_val_list:
  "lookup_val w a = PList (v # vs) \<Longrightarrow>
   get_val w a il dt =
     (if dt then atom_str v
      else py_join '', ''
             (sorted_set (map (\<lambda>x. py_strip (atom_str x)) (filter atom_truthy (v # vs)))))"
  by (simp add: get_val_def)

lemma init_whois_na:
  "list_all (\<lambda>k. map_of (info (init_state d)) k = Some ''N/A'') whois_keys"
  by (simp add: whois_keys_def init_state_def)

lemma whois_keys_apart:
  "list_all (\<lambda>k. k \<noteq> ''Mail Servers (MX)'' \<and> k \<noteq> ''Name Servers (NS)'' \<and>
      k \<noteq> ''DNS Resolves (A/AAAA)'' \<and> k \<noteq> ''IP Addresses'' \<and> k \<noteq> ''WHOIS Notes/Errors'')
     whois_keys"
  by (simp add: whois_keys_def)

lemma dns_state_whois_na:
  assumes k: "k \<in> set whois_keys"
  shows "map_of (info (check_mx e d (check_ns e d (check_ip e d (init_state d))))) k =
    Some ''N/A''"
proof -
  have apart: "k \<noteq> ''Mail Servers (MX)'' \<and> k \<noteq> ''Name Servers (NS)'' \<and>
      k \<noteq> ''DNS Resolves (A/AAAA)'' \<and> k \<noteq> ''IP Addresses'' \<and> k \<noteq> ''WHOIS Notes/Errors''"
    using whois_keys_apart k unfolding list_all_iff by blast
  have init: "map_of (info (init_state d)) k = Some ''N/A''"
    using init_whois_na [of d] k unfolding list_all_iff by blast
  show ?thesis
    using apart init by (simp add: frame_check_mx frame_check_ns frame_check_ip)
qed

lemma whois_keys_not_notes: "k \<in> set whois_keys \<Longrightarrow> k \<noteq> ''WHOIS Notes/Errors''"
  using whois_keys_apart unfolding list_all_iff by blast

lemma whois_lookup_no_data:
  "whois_data e d = None \<Longrightarrow> info (whois_lookup e d s) = info s"
  by (auto simp: whois_data_def whois_lookup_def Let_def split: sum.splits option.splits)

lemma whois_lookup_not_wanted:
  "\<not> whois_wanted s \<Longrightarrow> info (whois_lookup e d s) = info s"
  by (simp add: whois_lookup_def)

lemma whois_lookup_data:
  "whois_data e d = Some w \<Longrightarrow> whois_wanted s \<Longrightarrow>
   info (whois_lookup e d s) = info (whois_fields w (s\<lparr>queries := queries s @ [WhoisQ d]\<rparr>))"
  by (auto simp: whois_data_def whois_lookup_def Let_def split: sum.splits option.splits)

lemma whois_fields_all:
  "list_all (\<lambda>(k, a, dt). map_of (info (whois_fields w s)) k =
      Some (get_val w a (a = ''status'') dt)) whois_columns"
  by (simp add: whois_columns_def whois_fields_def Let_def map_of_dict_set)

lemma whois_fields_column:
  "(k, a, dt) \<in> set whois_columns \<Longrightarrow>
   map_of (info (whois_fields w s)) k = Some (get_val w a (a = ''status'') dt)"
  using whois_fields_all [of w s] unfolding list_all_iff by blast

lemma whois_fields_org:
  "map_of (info (whois_fields w s)) ''WHOIS Registrant Org'' =
     Some (if get_val w ''org'' False False = ''N/A''
           then get_val w ''registrant_organization'' False False
           else get_val w ''org'' False False)"
  by (simp add: whois_fields_def Let_def map_of_dict_set)

lemma columns_all_keys: "list_all (\<lambda>(k, a, dt). k \<in> set whois_keys) whois_columns"
  by (simp add: whois_columns_def whois_keys_def)

lemma columns_are_keys: "(k, a, dt) \<in> set whois_columns \<Longrightarrow> k \<in> set whois_keys"
  using columns_all_keys unfolding list_all_iff by blast

lemma column_na:
  assumes col: "(k, a, dt) \<in> set whois_columns"
    and na: "\<forall>w. whois_data e d = Some w \<longrightarrow> \<not> truthy (lookup_val w a)"
  shows "map_of (fst (get_domain_variant_info e d)) k = Some ''N/A''"
proof -
  define s where "s = check_mx e d (check_ns e d (check_ip e d (init_state d)))"
  have key: "k \<in> set whois_keys" using col by (rule columns_are_keys)
  have base: "map_of (info s) k = Some ''N/A''"
    unfolding s_def using key by (rule dns_state_whois_na)
  have "map_of (info (whois_lookup e d s)) k = Some ''N/A''"
  proof (cases "whois_data e d")
    case None
    then show ?thesis using base by (simp add: whois_lookup_no_data)
  next
    case (Some w)
    show ?thesis
    proof (cases "whois_wanted s")
      case True
      have "\<not> truthy (lookup_val w a)" using na Some by simp
      then show ?thesis
        using whois_lookup_data [OF Some True] whois_fields_column [OF col]
        by (simp add: get_val_na)
    next
      case False
      then show ?thesis using base by (simp add: whois_lookup_not_wanted)
    qed
  qed
  then show ?thesis
    using whois_keys_not_notes [OF key]
    by (simp add: variant_info_field variant_state_def s_def)
qed

lemma org_na:
  assumes na: "\<forall>w. whois_data e d = Some w \<longrightarrow>
      \<not> truthy (lookup_val w ''org'') \<and> \<not> truthy (lookup_val w ''registrant_organization'')"
  shows "map_of (fst (get_domain_variant_info e d)) ''WHOIS Registrant Org'' = Some ''N/A''"
proof -
  define s where "s = check_mx e d (check_ns e d (check_ip e d (init_state d)))"
  have key: "''WHOIS Registrant Org'' \<in> set whois_keys" by (simp add: whois_keys_def)
  have base: "map_of (info s) ''WHOIS Registrant Org'' = Some ''N/A''"
    unfolding s_def using key by (rule dns_state_whois_na)
  have "map_of (info (whois_lookup e d s)) ''WHOIS Registrant Org'' = Some ''N/A''"
  proof (cases "whois_data e d")
    case None
    then show ?thesis using base by (simp add: whois_lookup_no_data)
  next
    case (Some w)
    show ?thesis
    proof (cases "whois_wanted s")
      case True
      have "\<not> truthy (lookup_val w ''org'')"
        "\<not> truthy (lookup_val w ''registrant_organization'')"
        using na Some by simp_all
      then show ?thesis
        using whois_lookup_data [OF Some True]
        by (simp add: get_val_na whois_fields_org)
    next
      case False
      then show ?thesis using base by (simp add: whois_lookup_not_wanted)
    qed
  qed
  then show ?thesis
    by (simp add: variant_info_field variant_state_def s_def)
qed

lemma queries_check_ip:
  "WhoisQ x \<in> set (queries (check_ip e d s)) \<longleftrightarrow> WhoisQ x \<in> set (queries s)"
  by (auto simp: check_ip_def resolve_ips_def split: prod.splits sum.splits)

lemma queries_check_ns:
  "WhoisQ x \<in> set (queries (check_ns e d s)) \<longleftrightarrow> WhoisQ x \<in> set (queries s)"
  by (auto simp: check_ns_def Let_def split: sum.splits exn_class.splits)

lemma queries_check_mx:
  "WhoisQ x \<in> set (queries (check_mx e d s)) \<longleftrightarrow> WhoisQ x \<in> set (queries s)"
  by (auto simp: check_mx_def Let_def split: sum.splits exn_class.splits)

lemma queries_whois_fields: "queries (whois_fields w s) = queries s"
  by (simp add: whois_fields_def Let_def)

lemma queried_iff_wanted:
  "WhoisQ d \<in> set (snd (get_domain_variant_info e d)) \<longleftrightarrow>
   whois_wanted (check_mx e d (check_ns e d (check_ip e d (init_state d))))"
proof -
  define s where "s = check_mx e d (check_ns e d (check_ip e d (init_state d)))"
  have before: "WhoisQ d \<notin> set (queries s)"
    by (simp add: s_def queries_check_mx queries_check_ns queries_check_ip init_state_def)
  have "WhoisQ d \<in> set (queries (whois_lookup e d s)) \<longleftrightarrow> whois_wanted s"
    using before
    by (auto simp: whois_lookup_def Let_def queries_whois_fields split: sum.splits option.splits)
  then show ?thesis
    by (simp add: get_domain_variant_info_def Let_def variant_state_def s_def)
qed

lemma resolved_ip_kept:
  "dns_resolved_ip (check_ns e d s) = dns_resolved_ip s"
  "dns_resolved_ip (check_mx e d s) = dns_resolved_ip s"
  by (simp_all add: check_ns_def check_mx_def Let_def split: sum.splits exn_class.splits)

lemma wanted_when_resolved:
  "resolve_addr e d A = Inr as \<Longrightarrow> resolve_addr e d AAAA = Inr bs \<Longrightarrow> as @ bs \<noteq> [] \<Longrightarrow>
   whois_wanted (check_mx e d (check_ns e d (check_ip e d s)))"
  by (simp add: whois_wanted_def resolved_ip_kept check_ip_def resolve_ips_def)

lemma column_value:
  assumes col: "(k, a, dt) \<in> set whois_columns"
    and q: "WhoisQ d \<in> set (snd (get_domain_variant_info e d))"
    and w: "whois_data e d = Some w"
  shows "map_of (fst (get_domain_variant_info e d)) k = Some (get_val w a (a = ''status'') dt)"
proof -
  define s where "s = check_mx e d (check_ns e d (check_ip e d (init_state d)))"
  have wanted: "whois_wanted s" using q by (simp add: queried_iff_wanted s_def)
  have key: "k \<in> set whois_keys" using col by (rule columns_are_keys)
  have "map_of (info (whois_lookup e d s)) k = Some (get_val w a (a = ''status'') dt)"
    using whois_lookup_data [OF w wanted] whois_fields_column [OF col] by simp
  then show ?thesis
    using whois_keys_not_notes [OF key]
    by (simp add: variant_info_field variant_state_def s_def)
qed

subsection \<open>The WHOIS lines of the collector\<close>

lemma run_lines_mem:
  "snd (run_lines ls) = None \<Longrightarrow> Inr xs \<in> set ls \<Longrightarrow> set xs \<subseteq> set (fst (run_lines ls))"
  by (induction ls rule: run_lines.induct) (auto split: prod.splits)

lemma run_lines_all_inr:
  "snd (run_lines ls) = None \<Longrightarrow> l \<in> set ls \<Longrightarrow> \<exists>xs. l = Inr xs"
  by (induction ls rule: run_lines.induct) (auto split: prod.splits)

lemma whois_block_ok:
  "whois_ok e d w \<Longrightarrow> whois_block e d = (fst (run_lines (whois_record_lines e w)), [])"
  by (cases "run_lines (whois_record_lines e w)")
    (auto simp: whois_ok_def whois_block_def Let_def getattr_w_def split: option.splits)

lemma line_in_block:
  assumes ok: "whois_ok e d w" and l: "Inr [l] \<in> set (whois_record_lines e w)"
  shows "l \<in> set (fst (whois_block e d))"
proof -
  have "snd (run_lines (whois_record_lines e w)) = None"
    using ok by (simp add: whois_ok_def)
  then have "set [l] \<subseteq> set (fst (run_lines (whois_record_lines e w)))"
    using l by (rule run_lines_mem)
  then show ?thesis
    by (simp add: whois_block_ok [OF ok])
qed

lemma plain_na:
  "w_attr w a = Some v \<Longrightarrow> \<not> truthy v \<Longrightarrow> plain_line e w l a = Inr [l @ '': N/A'']"
  by (simp add: plain_line_def getattr_w_def or_na_def)

lemma first_if_list_falsy: "\<not> truthy v \<Longrightarrow> \<not> atom_truthy (first_if_list v)"
  by (cases v) (simp_all add: first_if_list_def)

lemma date_na:
  "w_attr w a = Some v \<Longrightarrow> \<not> truthy v \<Longrightarrow> date_line w l a = Inr [l @ '': N/A'']"
  by (simp add: date_line_def getattr_w_def Let_def first_if_list_falsy)

lemma status_na:
  "w_attr w ''status'' = Some v \<Longrightarrow> \<not> truthy v \<Longrightarrow>
   status_line w = Inr [''Domain Status'' @ '': N/A'']"
  by (cases v) (simp_all add: status_line_def getattr_w_def)

lemma name_server_na:
  "w_attr w ''name_servers'' = Some v \<Longrightarrow> \<not> truthy v \<Longrightarrow>
   name_server_line w = Inr [''Name Server'' @ '': N/A'']"
  by (simp add: name_server_line_def getattr_w_def)

lemma guarded_na:
  "guarded w a = None \<Longrightarrow> guarded_line e w l a = Inr [l @ '': N/A'']"
  by (simp add: guarded_line_def)

lemma lines_listed:
  "plain_line e w ''Registry Domain ID'' ''registry_domain_id'' \<in> set (whois_record_lines e w)"
  "plain_line e w ''Registrar WHOIS Server'' ''whois_server'' \<in> set (whois_record_lines e w)"
  "registrar_url_line e w \<in> set (whois_record_lines e w)"
  "date_line w ''Updated Date'' ''updated_date'' \<in> set (whois_record_lines e w)"
  "date_line w ''Creation Date'' ''creation_date'' \<in> set (whois_record_lines e w)"
  "date_line w ''Registrar Registration Expiration Date'' ''expiration_date''
     \<in> set (whois_record_lines e w)"
  "plain_line e w ''Registrar'' ''registrar'' \<in> set (whois_record_lines e w)"
  "guarded_line e w ''Registrar IANA ID'' ''iana_id'' \<in> set (whois_record_lines e w)"
  "guarded_line e w ''Registrar Abuse Contact Email'' ''abuse_contact_email''
     \<in> set (whois_record_lines e w)"
  "guarded_line e w ''Registrar Abuse Contact Phone'' ''abuse_contact_phone''
     \<in> set (whois_record_lines e w)"
  "status_line w \<in> set (whois_record_lines e w)"
  "name_server_line w \<in> set (whois_record_lines e w)"
  unfolding whois_record_lines_def list.set by blast+

lemma plain_na_line:
  "plain_line e w l a \<in> set ls \<Longrightarrow> w_attr w a = Some v \<Longrightarrow> \<not> truthy v \<Longrightarrow>
   Inr [l @ '': N/A''] \<in> set ls"
  by (simp add: plain_na)

lemma date_na_line:
  "date_line w l a \<in> set ls \<Longrightarrow> w_attr w a = Some v \<Longrightarrow> \<not> truthy v \<Longrightarrow>
   Inr [l @ '': N/A''] \<in> set ls"
  by (simp add: date_na)

lemma status_na_line:
  "status_line w \<in> set ls \<Longrightarrow> w_attr w ''status'' = Some v \<Longrightarrow> \<not> truthy v \<Longrightarrow>
   Inr [''Domain Status'' @ '': N/A''] \<in> set ls"
  using status_na [of w v] by simp

lemma name_server_na_line:
  "name_server_line w \<in> set ls \<Longrightarrow> w_attr w ''name_servers'' = Some v \<Longrightarrow> \<not> truthy v \<Longrightarrow>
   Inr [''Name Server'' @ '': N/A''] \<in> set ls"
  using name_server_na [of w v] by simp

lemma guarded_na_line:
  "guarded_line e w l a \<in> set ls \<Longrightarrow> guarded w a = None \<Longrightarrow> Inr [l @ '': N/A''] \<in> set ls"
  by (simp add: guarded_na)

lemma na_fields_all:
  "list_all (\<lambda>(l, a). \<forall>v. w_attr w a = Some v \<longrightarrow> \<not> truthy v \<longrightarrow>
      Inr [l @ '': N/A''] \<in> set (whois_record_lines e w)) na_fields"
  unfolding na_fields_def
  apply (simp only: list.pred_inject prod.case simp_thms)
  apply (intro conjI allI impI)
         apply (rule plain_na_line [OF lines_listed(1)]; assumption)
        apply (rule plain_na_line [OF lines_listed(2)]; assumption)
       apply (rule date_na_line [OF lines_listed(4)]; assumption)
      apply (rule date_na_line [OF lines_listed(5)]; assumption)
     apply (rule date_na_line [OF lines_listed(6)]; assumption)
    apply (rule plain_na_line [OF lines_listed(7)]; assumption)
   apply (rule status_na_line [OF lines_listed(11)]; assumption)
  apply (rule name_server_na_line [OF lines_listed(12)]; assumption)
  done

lemma guarded_fields_all:
  "list_all (\<lambda>(l, a). guarded w a = None \<longrightarrow>
      Inr [l @ '': N/A''] \<in> set (whois_record_lines e w)) guarded_fields"
  unfolding guarded_fields_def
  apply (simp only: list.pred_inject prod.case simp_thms)
  apply (intro conjI impI)
    apply (rule guarded_na_line [OF lines_listed(8)]; assumption)
   apply (rule guarded_na_line [OF lines_listed(9)]; assumption)
  apply (rule guarded_na_line [OF lines_listed(10)]; assumption)
  done

lemma date_fields_all:
  "list_all (\<lambda>(l, a). date_line w l a \<in> set (whois_record_lines e w)) date_fields"
  unfolding date_fields_def
  apply (simp only: list.pred_inject prod.case simp_thms)
  apply (intro conjI)
    apply (rule lines_listed(4))
   apply (rule lines_listed(5))
  apply (rule lines_listed(6))
  done

lemma date_list:
  "w_attr w a = Some (PList (v # vs)) \<Longrightarrow>
   date_line w l a = Inr [l @ '': '' @ (if atom_truthy v then atom_str v else ''N/A'')]"
  by (simp add: date_line_def getattr_w_def Let_def first_if_list_def)

lemma join_atoms_strs: "join_atoms i (map AStr ss) = Inr ss"
  by (induction ss arbitrary: i) simp_all

lemma status_list:
  "w_attr w ''status'' = Some (PList (map AStr ss)) \<Longrightarrow> ss \<noteq> [] \<Longrightarrow>
   status_line w = Inr [''Domain Status: '' @ py_join '', '' ss]"
  by (simp add: status_line_def getattr_w_def join_val_def join_atoms_strs)

lemma registrar_url_str:
  "guarded w ''registrar_url'' = None \<Longrightarrow> w_attr w ''registrar'' = Some (PAtom (AStr s)) \<Longrightarrow>
   registrar_url e w =
     Inr (if clean_registrar s \<noteq> [] then ''https://www.'' @ clean_registrar s @ ''.com''
          else ''N/A'')"
  by (cases "s = []")
    (simp_all add: registrar_url_def getattr_w_def Let_def clean_registrar_def first_segment_def
      remove_char_def py_lower_def)

lemma registrar_url_none:
  "guarded w ''registrar_url'' = None \<Longrightarrow> w_attr w ''registrar'' = Some r \<Longrightarrow> \<not> truthy r \<Longrightarrow>
   registrar_url e w = Inr ''N/A''"
  by (simp add: registrar_url_def getattr_w_def)

lemma registrar_url_in_block:
  assumes ok: "whois_ok e d w"
  shows "\<exists>u. registrar_url e w = Inr u \<and> (''Registrar URL: '' @ u) \<in> set (fst (whois_block e d))"
proof -
  have "snd (run_lines (whois_record_lines e w)) = None"
    using ok by (simp add: whois_ok_def)
  then obtain xs where xs: "registrar_url_line e w = Inr xs"
    using run_lines_all_inr lines_listed(3) by blast
  then obtain u where u: "registrar_url e w = Inr u" and "xs = [''Registrar URL: '' @ u]"
    by (auto simp: registrar_url_line_def split: sum.splits)
  then have "Inr [''Registrar URL: '' @ u] \<in> set (whois_record_lines e w)"
    using xs lines_listed(3) [where e = e and w = w] by simp
  then have "(''Registrar URL: '' @ u) \<in> set (fst (whois_block e d))"
    using ok by (rule line_in_block [rotated])
  then show ?thesis using u by blast
qed

subsection \<open>The sample record\<close>

lemmas line_defs =
  whois_record_lines_def domain_name_line_def plain_line_def registrar_url_line_def
  registrar_url_def date_line_def guarded_line_def status_line_def contact_lines_def
  name_server_line_def getattr_w_def getattr_default_def guarded_def or_na_def py_or_def
  first_if_list_def join_val_def py_capitalize_def upper_char_def first_segment_def
  remove_char_def py_lower_def lower_char_def Let_def

lemma sample_lines:
  "run_lines (whois_record_lines env_sample sample_record) =
     ([''Domain Name: EXAMPLE.COM, example.com'',
       ''Registry Domain ID: N/A'',
       ''Registrar WHOIS Server: N/A'',
       ''Registrar URL: https://www.exampleregistrar.com'',
       ''Updated Date: 2024-08-14 07:01:34'',
       ''Creation Date: 1995-08-14 04:00:00'',
       ''Registrar Registration Expiration Date: N/A'',
       ''Registrar: Example Registrar, Inc.'',
       ''Registrar IANA ID: N/A'',
       ''Registrar Abuse Contact Email: N/A'',
       ''Registrar Abuse Contact Phone: N/A'',
       ''Domain Status: clientTransferProhibited, clientDeleteProhibited, clientTransferProhibited'',
       ''Name Server: B.IANA-SERVERS.NET, A.IANA-SERVERS.NET''], None)"
  by (simp add: line_defs sample_record_def sample_fields_def)

lemma sample_ok: "whois_ok env_sample ''example.com'' sample_record"
  by (simp add: whois_ok_def sample_lines) (simp add: env_sample_def sample_record_def sample_fields_def)

lemma sample_data: "whois_data env_sample ''example.com'' = Some sample_record"
  by (simp add: whois_data_def has_data_def getattr_w_def env_sample_def sample_record_def
        sample_fields_def)

lemma sample_queried:
  "WhoisQ ''example.com'' \<in> set (snd (get_domain_variant_info env_sample ''example.com''))"
proof -
  have a: "resolve_addr env_sample ''example.com'' A = Inr [''93.184.216.34'', ''23.215.0.136'']"
    by (simp add: env_sample_def)
  have b: "resolve_addr env_sample ''example.com'' AAAA =
      Inr [''2606:2800:21f:cb07:6820:80da:af6b:8b2c'']"
    by (simp add: env_sample_def)
  show ?thesis
    unfolding queried_iff_wanted by (rule wanted_when_resolved [OF a b]) simp
qed

lemma sample_lookup:
  "lookup_val sample_record a =
     (case map_of sample_fields a of None \<Rightarrow> PAtom ANone | Some v \<Rightarrow> v)"
  by (simp add: lookup_val_def sample_record_def)

text \<open>
  C3 (missing fields read N/A). As stated the claim fails on the error rows it names:
  the row the TLD checker writes when no base name can be extracted sets three columns
  only, and \<open>csv.DictWriter\<close> fills the others, the WHOIS columns among them, with the
  empty string. For the input \<open>co.uk\<close> the column \<open>WHOIS Creation Date\<close> (the ninth) is
  empty, not \<open>N/A\<close>.
\<close>

theorem error_row_whois_columns_empty:
  "fst (main env_sample [''co.uk'']) =
     File output_header
       [[''co.uk'', ''Error'', [], [], [], [], [], [], [], [], [], [], [], [],
         ''Could not extract base name from input.'']] True \<and>
   output_header ! 8 = ''WHOIS Creation Date''"
  by (simp add: main_def string_defs extract_meaningful_base_def env_sample_def
        sample_split_def error_row_written Let_def)
    (simp add: output_header_def)

text \<open>
  C3, amended. In the rows \<open>get_domain_variant_info\<close> builds, each of the columns WHOIS
  Creation Date, Updated Date, Expiration Date, Registrar and Domain Status reads \<open>N/A\<close>
  when WHOIS gave no record with data or the record's attribute is absent, \<open>None\<close>, an
  empty string or an empty list; WHOIS Registrant Org reads \<open>N/A\<close> when that holds of
  both \<open>org\<close> and \<open>registrant_organization\<close>. In the collector, when the record has a
  domain name and formatting it raises nothing, each of the lines Registry Domain ID,
  Registrar WHOIS Server, Updated Date, Creation Date, Registrar Registration Expiration
  Date, Registrar, Domain Status and Name Server reads \<open>N/A\<close> when its attribute is
  \<open>None\<close> or empty, and each of Registrar IANA ID, Registrar Abuse Contact Email and
  Phone reads \<open>N/A\<close> when its attribute is missing, \<open>None\<close> or empty. (The error rows of
  the TLD checker leave the WHOIS columns empty.)
\<close>

theorem absent_field_reads_na:
  "((k, a, dt) \<in> set whois_columns \<longrightarrow>
      (\<forall>r. whois_data e d = Some r \<longrightarrow> \<not> truthy (lookup_val r a)) \<longrightarrow>
      map_of (fst (get_domain_variant_info e d)) k = Some ''N/A'') \<and>
   ((\<forall>r. whois_data e d = Some r \<longrightarrow>
        \<not> truthy (lookup_val r ''org'') \<and> \<not> truthy (lookup_val r ''registrant_organization'')) \<longrightarrow>
      map_of (fst (get_domain_variant_info e d)) ''WHOIS Registrant Org'' = Some ''N/A'') \<and>
   (whois_ok e d w \<longrightarrow> (l, b) \<in> set na_fields \<longrightarrow> w_attr w b = Some v \<longrightarrow> \<not> truthy v \<longrightarrow>
      (l @ '': N/A'') \<in> set (fst (whois_block e d))) \<and>
   (whois_ok e d w \<longrightarrow> (l', b') \<in> set guarded_fields \<longrightarrow> guarded w b' = None \<longrightarrow>
      (l' @ '': N/A'') \<in> set (fst (whois_block e d)))"
proof (intro conjI impI)
  assume "(k, a, dt) \<in> set whois_columns"
    and "\<forall>r. whois_data e d = Some r \<longrightarrow> \<not> truthy (lookup_val r a)"
  then show "map_of (fst (get_domain_variant_info e d)) k = Some ''N/A''"
    by (rule column_na)
next
  assume "\<forall>r. whois_data e d = Some r \<longrightarrow>
      \<not> truthy (lookup_val r ''org'') \<and> \<not> truthy (lookup_val r ''registrant_organization'')"
  then show "map_of (fst (get_domain_variant_info e d)) ''WHOIS Registrant Org'' = Some ''N/A''"
    by (rule org_na)
next
  assume ok: "whois_ok e d w" and f: "(l, b) \<in> set na_fields"
    and v: "w_attr w b = Some v" "\<not> truthy v"
  have "Inr [l @ '': N/A''] \<in> set (whois_record_lines e w)"
    using na_fields_all [of w e] f v unfolding list_all_iff by fastforce
  with ok show "(l @ '': N/A'') \<in> set (fst (whois_block e d))"
    by (rule line_in_block)
next
  assume ok: "whois_ok e d w" and f: "(l', b') \<in> set guarded_fields"
    and g: "guarded w b' = None"
  have "Inr [l' @ '': N/A''] \<in> set (whois_record_lines e w)"
    using guarded_fields_all [of w e] f g unfolding list_all_iff by fastforce
  with ok show "(l' @ '': N/A'') \<in> set (fst (whois_block e d))"
    by (rule line_in_block)
qed

theorem absent_field_reads_na_witness:
  "map_of (fst (get_domain_variant_info env_sample ''example.com'')) ''WHOIS Expiration Date'' =
     Some ''N/A'' \<and>
   map_of (fst (get_domain_variant_info env_sample ''example.com'')) ''WHOIS Registrant Org'' =
     Some ''N/A'' \<and>
   ''Registry Domain ID: N/A'' \<in> set (fst (whois_block env_sample ''example.com'')) \<and>
   ''Registrar IANA ID: N/A'' \<in> set (fst (whois_block env_sample ''example.com''))"
proof -
  have col: "(''WHOIS Expiration Date'', ''expiration_date'', True) \<in> set whois_columns"
    by (simp add: whois_columns_def)
  have f: "(''Registry Domain ID'', ''registry_domain_id'') \<in> set na_fields"
    by (simp add: na_fields_def)
  have g: "(''Registrar IANA ID'', ''iana_id'') \<in> set guarded_fields"
    by (simp add: guarded_fields_def)
  have none: "\<forall>r. whois_data env_sample ''example.com'' = Some r \<longrightarrow>
      \<not> truthy (lookup_val r ''expiration_date'')"
    by (simp add: sample_data sample_lookup sample_fields_def)
  have org: "\<forall>r. whois_data env_sample ''example.com'' = Some r \<longrightarrow>
      \<not> truthy (lookup_val r ''org'') \<and> \<not> truthy (lookup_val r ''registrant_organization'')"
    by (simp add: sample_data sample_lookup sample_fields_def)
  have v: "w_attr sample_record ''registry_domain_id'' = Some (PAtom ANone)"
    "\<not> truthy (PAtom ANone)"
    by (simp_all add: sample_record_def sample_fields_def)
  have i: "guarded sample_record ''iana_id'' = None"
    by (simp add: guarded_def sample_record_def sample_fields_def)
  show ?thesis
    using absent_field_reads_na [where e = env_sample and d = "''example.com''"
        and w = sample_record and k = "''WHOIS Expiration Date''" and a = "''expiration_date''"
        and dt = True and l = "''Registry Domain ID''" and b = "''registry_domain_id''"
        and v = "PAtom ANone" and l' = "''Registrar IANA ID''" and b' = "''iana_id''"]
      col f g none org v i sample_ok
    by simp
qed

text \<open>
  C5 (list-valued WHOIS fields). As stated the claim fails for the collector, which joins
  a status list as it stands (line 55): the sample record's three status codes, one of
  them twice, are listed in record order, where the stated rule gives two codes in
  sorted order.
\<close>

theorem collector_status_in_record_order:
  "w_attr sample_record ''status'' =
     Some (PList [AStr ''clientTransferProhibited'', AStr ''clientDeleteProhibited'',
                  AStr ''clientTransferProhibited'']) \<and>
   status_line sample_record =
     Inr [''Domain Status: clientTransferProhibited, clientDeleteProhibited, clientTransferProhibited''] \<and>
   py_join '', ''
     (sorted_set [''clientTransferProhibited'', ''clientDeleteProhibited'',
                  ''clientTransferProhibited'']) =
     ''clientDeleteProhibited, clientTransferProhibited''"
  by (simp add: status_line_def getattr_w_def join_val_def sample_record_def sample_fields_def
        sorted_set_def)

text \<open>
  C5, amended. In the TLD checker, when WHOIS is queried and returns a record with data,
  a non-empty list in one of the attributes behind the columns WHOIS Creation Date,
  Updated Date, Expiration Date, Registrar and Domain Status is flattened like this: a
  date column takes the text of the first element; any other column is the ", "-join of
  the texts, stripped of surrounding whitespace, of the elements that are not \<open>None\<close> or
  empty, without duplicates and in sorted order. In the collector, when the record has a
  domain name and formatting it raises nothing, a date line takes the first element of a
  list (\<open>N/A\<close> when that is \<open>None\<close> or empty), and the Domain Status line is the
  ", "-join of a list of strings in record order, duplicates included.
\<close>

theorem list_fields_flattened:
  "((k, a, dt) \<in> set whois_columns \<longrightarrow>
      WhoisQ d \<in> set (snd (get_domain_variant_info e d)) \<longrightarrow>
      whois_data e d = Some r \<longrightarrow> lookup_val r a = PList (v # vs) \<longrightarrow>
      map_of (fst (get_domain_variant_info e d)) k =
        Some (if dt then atom_str v
              else py_join '', ''
                     (sorted_set (map (\<lambda>x. py_strip (atom_str x))
                        (filter atom_truthy (v # vs)))))) \<and>
   sorted (sorted_set xs) \<and> distinct (sorted_set xs) \<and> set (sorted_set xs) = set xs \<and>
   (whois_ok e d w \<longrightarrow> (l, b) \<in> set date_fields \<longrightarrow> w_attr w b = Some (PList (u # us)) \<longrightarrow>
      (l @ '': '' @ (if atom_truthy u then atom_str u else ''N/A''))
        \<in> set (fst (whois_block e d))) \<and>
   (whois_ok e d w \<longrightarrow> w_attr w ''status'' = Some (PList (map AStr ss)) \<longrightarrow> ss \<noteq> [] \<longrightarrow>
      (''Domain Status: '' @ py_join '', '' ss) \<in> set (fst (whois_block e d)))"
proof (intro conjI impI)
  assume col: "(k, a, dt) \<in> set whois_columns"
    and q: "WhoisQ d \<in> set (snd (get_domain_variant_info e d))"
    and r: "whois_data e d = Some r" and l: "lookup_val r a = PList (v # vs)"
  show "map_of (fst (get_domain_variant_info e d)) k =
      Some (if dt then atom_str v
            else py_join '', ''
                   (sorted_set (map (\<lambda>x. py_strip (atom_str x)) (filter atom_truthy (v # vs)))))"
    unfolding column_value [OF col q r] get_val_list [OF l] ..
next
  show "sorted (sorted_set xs)" "distinct (sorted_set xs)" "set (sorted_set xs) = set xs"
    using sorted_set_props [of xs] by simp_all
next
  assume ok: "whois_ok e d w" and f: "(l, b) \<in> set date_fields"
    and u: "w_attr w b = Some (PList (u # us))"
  have "date_line w l b \<in> set (whois_record_lines e w)"
    using date_fields_all [of w e] f unfolding list_all_iff by fastforce
  then have "Inr [l @ '': '' @ (if atom_truthy u then atom_str u else ''N/A'')]
      \<in> set (whois_record_lines e w)"
    unfolding date_list [OF u] .
  with ok show "(l @ '': '' @ (if atom_truthy u then atom_str u else ''N/A''))
      \<in> set (fst (whois_block e d))"
    by (rule line_in_block)
next
  assume ok: "whois_ok e d w" and s: "w_attr w ''status'' = Some (PList (map AStr ss))"
    and ne: "ss \<noteq> []"
  have "Inr [''Domain Status: '' @ py_join '', '' ss] \<in> set (whois_record_lines e w)"
    using lines_listed(11) [where e = e and w = w] unfolding status_list [OF s ne] .
  with ok show "(''Domain Status: '' @ py_join '', '' ss) \<in> set (fst (whois_block e d))"
    by (rule line_in_block)
qed

theorem list_fields_flattened_witness:
  "map_of (fst (get_domain_variant_info env_sample ''example.com'')) ''WHOIS Creation Date'' =
     Some ''1995-08-14 04:00:00'' \<and>
   map_of (fst (get_domain_variant_info env_sample ''example.com'')) ''WHOIS Domain Status'' =
     Some ''clientDeleteProhibited, clientTransferProhibited'' \<and>
   ''Creation Date: 1995-08-14 04:00:00'' \<in> set (fst (whois_block env_sample ''example.com'')) \<and>
   ''Domain Status: clientTransferProhibited, clientDeleteProhibited, clientTransferProhibited''
     \<in> set (fst (whois_block env_sample ''example.com''))"
proof -
  have c1: "(''WHOIS Creation Date'', ''creation_date'', True) \<in> set whois_columns"
    and c2: "(''WHOIS Domain Status'', ''status'', False) \<in> set whois_columns"
    by (simp_all add: whois_columns_def)
  have f: "(''Creation Date'', ''creation_date'') \<in> set date_fields"
    by (simp add: date_fields_def)
  have l1: "lookup_val sample_record ''creation_date'' =
      PList (ADate ''1995-08-14 04:00:00'' # [ADate ''1995-08-14 04:00:01''])"
    and l2: "lookup_val sample_record ''status'' =
      PList (AStr ''clientTransferProhibited'' #
             [AStr ''clientDeleteProhibited'', AStr ''clientTransferProhibited''])"
    by (simp_all add: sample_lookup sample_fields_def)
  have a1: "w_attr sample_record ''creation_date'' =
      Some (PList (ADate ''1995-08-14 04:00:00'' # [ADate ''1995-08-14 04:00:01'']))"
    and a2: "w_attr sample_record ''status'' =
      Some (PList (map AStr [''clientTransferProhibited'', ''clientDeleteProhibited'',
                             ''clientTransferProhibited'']))"
    by (simp_all add: sample_record_def sample_fields_def)
  have t1: "map_of (fst (get_domain_variant_info env_sample ''example.com''))
      ''WHOIS Creation Date'' = Some ''1995-08-14 04:00:00''"
    using list_fields_flattened [where e = env_sample and d = "''example.com''"
        and k = "''WHOIS Creation Date''" and a = "''creation_date''" and dt = True
        and r = sample_record and v = "ADate ''1995-08-14 04:00:00''"
        and vs = "[ADate ''1995-08-14 04:00:01'']"]
      c1 sample_queried sample_data l1
    by simp
  have t2: "map_of (fst (get_domain_variant_info env_sample ''example.com''))
      ''WHOIS Domain Status'' = Some ''clientDeleteProhibited, clientTransferProhibited''"
    using list_fields_flattened [where e = env_sample and d = "''example.com''"
        and k = "''WHOIS Domain Status''" and a = "''status''" and dt = False
        and r = sample_record and v = "AStr ''clientTransferProhibited''"
        and vs = "[AStr ''clientDeleteProhibited'', AStr ''clientTransferProhibited'']"]
      c2 sample_queried sample_data l2
    by (simp add: sorted_set_def py_strip_def py_isspace_def)
  have t3: "''Creation Date: 1995-08-14 04:00:00''
      \<in> set (fst (whois_block env_sample ''example.com''))"
    using list_fields_flattened [where e = env_sample and d = "''example.com''"
        and w = sample_record and l = "''Creation Date''" and b = "''creation_date''"
        and u = "ADate ''1995-08-14 04:00:00''" and us = "[ADate ''1995-08-14 04:00:01'']"]
      sample_ok f a1
    by simp
  have t4: "''Domain Status: clientTransferProhibited, clientDeleteProhibited, clientTransferProhibited''
      \<in> set (fst (whois_block env_sample ''example.com''))"
    using list_fields_flattened [where e = env_sample and d = "''example.com''"
        and w = sample_record
        and ss = "[''clientTransferProhibited'', ''clientDeleteProhibited'',
                   ''clientTransferProhibited'']"]
      sample_ok a2
    by simp
  show ?thesis using t1 t2 t3 t4 by (intro conjI)
qed

text \<open>
  C9 (the registrar URL fallback). As stated the claim fails where the registrar name is
  not empty but nothing is left of its first comma-delimited segment: the test of line 30
  then keeps \<open>N/A\<close>. For the registrar text \<open>, Inc.\<close> the field is \<open>N/A\<close>, not
  \<open>https://www..com\<close>.
\<close>

theorem empty_segment_gives_na:
  "guarded comma_record ''registrar_url'' = None \<and>
   w_attr comma_record ''registrar'' = Some (PAtom (AStr '', Inc.'')) \<and>
   registrar_url env_sample comma_record = Inr ''N/A'' \<and>
   registrar_url_line env_sample comma_record = Inr [''Registrar URL: N/A'']"
  by (simp add: registrar_url_line_def registrar_url_def guarded_def getattr_w_def
        comma_record_def record_with_def first_segment_def remove_char_def py_lower_def)

text \<open>
  C9, amended. In the collector, for every WHOIS record with no explicit registrar URL
  (the attribute is missing, \<open>None\<close> or empty): when the registrar is a string, the
  Registrar URL is \<open>https://www.<name>.com\<close>, where \<open><name>\<close> is the registrar's first
  comma-delimited segment, lower-cased, with spaces and periods removed, provided
  \<open><name>\<close> is not empty, and \<open>N/A\<close> when it is; when the registrar is \<open>None\<close> or empty
  the Registrar URL is \<open>N/A\<close>. When the record has a domain name and formatting it
  raises nothing, the line \<open>Registrar URL: \<close> with that value is one of the lines of the
  Information text.
\<close>

theorem registrar_url_fallback:
  "guarded w ''registrar_url'' = None \<Longrightarrow> w_attr w ''registrar'' = Some r \<Longrightarrow>
   (r = PAtom (AStr s) \<longrightarrow>
      registrar_url e w =
        Inr (if clean_registrar s \<noteq> [] then ''https://www.'' @ clean_registrar s @ ''.com''
             else ''N/A'')) \<and>
   (\<not> truthy r \<longrightarrow> registrar_url e w = Inr ''N/A'') \<and>
   (whois_ok e d w \<longrightarrow>
      (\<exists>u. registrar_url e w = Inr u \<and>
           (''Registrar URL: '' @ u) \<in> set (fst (whois_block e d))))"
  using registrar_url_str [of w s e] registrar_url_none [of w r e]
    registrar_url_in_block [of e d w]
  by blast

theorem registrar_url_fallback_witness:
  "registrar_url env_sample sample_record = Inr ''https://www.exampleregistrar.com'' \<and>
   ''Registrar URL: https://www.exampleregistrar.com''
     \<in> set (fst (whois_block env_sample ''example.com'')) \<and>
   registrar_url env_sample bare_record = Inr ''N/A''"
proof -
  have g: "guarded sample_record ''registrar_url'' = None"
    and r: "w_attr sample_record ''registrar'' = Some (PAtom (AStr ''Example Registrar, Inc.''))"
    by (simp_all add: guarded_def sample_record_def sample_fields_def)
  have c: "clean_registrar ''Example Registrar, Inc.'' = ''exampleregistrar''"
    by (simp add: clean_registrar_def first_segment_def remove_char_def py_lower_def
          lower_char_def)
  have g': "guarded bare_record ''registrar_url'' = None"
    and r': "w_attr bare_record ''registrar'' = Some (PAtom ANone)"
    by (simp_all add: guarded_def bare_record_def record_with_def)
  have u: "registrar_url env_sample sample_record = Inr ''https://www.exampleregistrar.com''"
    using registrar_url_fallback [OF g r, where s = "''Example Registrar, Inc.''"
        and e = env_sample and d = "''example.com''"] c
    by simp
  have "\<exists>u. registrar_url env_sample sample_record = Inr u \<and>
      (''Registrar URL: '' @ u) \<in> set (fst (whois_block env_sample ''example.com''))"
    using registrar_url_fallback [OF g r, where s = "''Example Registrar, Inc.''"
        and e = env_sample and d = "''example.com''"] sample_ok
    by blast
  then have b: "''Registrar URL: https://www.exampleregistrar.com''
      \<in> set (fst (whois_block env_sample ''example.com''))"
    using u by auto
  have n: "registrar_url env_sample bare_record = Inr ''N/A''"
    using registrar_url_fallback [OF g' r', where s = "[]" and e = env_sample
        and d = "''example.org''"]
    by simp
  show ?thesis using u b n by (intro conjI)
qed

end
